theory Spec2Isabelle
  imports Complex_Main
begin

section \<open>JavaScript numbers\<close>

text \<open>
  The engines compute with JavaScript numbers. A number is modelled as a real, or one of
  the three special values that the code can produce and test for: \<open>Infinity\<close>,
  \<open>-Infinity\<close> and \<open>NaN\<close>. Arithmetic on the special values follows IEEE 754 as
  ECMAScript prescribes it (\<open>0/0\<close>, \<open>Infinity - Infinity\<close> and \<open>0 * Infinity\<close>
  are \<open>NaN\<close>, every comparison with \<open>NaN\<close> is false, \<open>Math.min\<close> and
  \<open>Math.max\<close> return \<open>NaN\<close> when an argument is \<open>NaN\<close>).
  On ordinary values the model is exact: the rounding of binary doubles, overflow to
  \<open>Infinity\<close> and the sign of zero are not modelled (a zero divisor counts as \<open>+0\<close>).
\<close>

datatype jsnum = Fin real | PInf | NInf | NaN

fun jneg :: "jsnum \<Rightarrow> jsnum" where
  "jneg (Fin a) = Fin (- a)"
| "jneg PInf = NInf"
| "jneg NInf = PInf"
| "jneg NaN = NaN"

fun jadd :: "jsnum \<Rightarrow> jsnum \<Rightarrow> jsnum" where
  "jadd (Fin a) (Fin b) = Fin (a + b)"
| "jadd NaN _ = NaN"
| "jadd _ NaN = NaN"
| "jadd PInf NInf = NaN"
| "jadd NInf PInf = NaN"
| "jadd PInf _ = PInf"
| "jadd _ PInf = PInf"
| "jadd NInf _ = NInf"
| "jadd _ NInf = NInf"

definition jsub :: "jsnum \<Rightarrow> jsnum \<Rightarrow> jsnum" where
  "jsub a b = jadd a (jneg b)"

fun jmul :: "jsnum \<Rightarrow> jsnum \<Rightarrow> jsnum" where
  "jmul (Fin a) (Fin b) = Fin (a * b)"
| "jmul NaN _ = NaN"
| "jmul _ NaN = NaN"
| "jmul (Fin a) PInf = (if a = 0 then NaN else if 0 < a then PInf else NInf)"
| "jmul (Fin a) NInf = (if a = 0 then NaN else if 0 < a then NInf else PInf)"
| "jmul PInf (Fin b) = (if b = 0 then NaN else if 0 < b then PInf else NInf)"
| "jmul NInf (Fin b) = (if b = 0 then NaN else if 0 < b then NInf else PInf)"
| "jmul PInf PInf = PInf"
| "jmul PInf NInf = NInf"
| "jmul NInf PInf = NInf"
| "jmul NInf NInf = PInf"

fun jdiv :: "jsnum \<Rightarrow> jsnum \<Rightarrow> jsnum" where
  "jdiv (Fin a) (Fin b) =
     (if b \<noteq> 0 then Fin (a / b)
      else if a = 0 then NaN else if 0 < a then PInf else NInf)"
| "jdiv NaN _ = NaN"
| "jdiv _ NaN = NaN"
| "jdiv (Fin a) _ = Fin 0"
| "jdiv PInf (Fin b) = (if 0 \<le> b then PInf else NInf)"
| "jdiv NInf (Fin b) = (if 0 \<le> b then NInf else PInf)"
| "jdiv _ _ = NaN"

fun jlt :: "jsnum \<Rightarrow> jsnum \<Rightarrow> bool" where
  "jlt (Fin a) (Fin b) = (a < b)"
| "jlt NaN _ = False"
| "jlt _ NaN = False"
| "jlt _ NInf = False"
| "jlt NInf _ = True"
| "jlt PInf _ = False"
| "jlt _ PInf = True"

fun jle :: "jsnum \<Rightarrow> jsnum \<Rightarrow> bool" where
  "jle (Fin a) (Fin b) = (a \<le> b)"
| "jle NaN _ = False"
| "jle _ NaN = False"
| "jle NInf _ = True"
| "jle _ PInf = True"
| "jle _ _ = False"

definition jgt :: "jsnum \<Rightarrow> jsnum \<Rightarrow> bool" where
  "jgt a b = jlt b a"

definition jge :: "jsnum \<Rightarrow> jsnum \<Rightarrow> bool" where
  "jge a b = jle b a"

text \<open>\<open>Math.min\<close>, \<open>Math.max\<close>, \<open>Math.abs\<close>, \<open>Number.isFinite\<close>.\<close>

definition jmin :: "jsnum \<Rightarrow> jsnum \<Rightarrow> jsnum" where
  "jmin a b = (if a = NaN \<or> b = NaN then NaN else if jle a b then a else b)"

definition jmax :: "jsnum \<Rightarrow> jsnum \<Rightarrow> jsnum" where
  "jmax a b = (if a = NaN \<or> b = NaN then NaN else if jle a b then b else a)"

fun jabs :: "jsnum \<Rightarrow> jsnum" where
  "jabs (Fin a) = Fin \<bar>a\<bar>"
| "jabs NaN = NaN"
| "jabs _ = PInf"

fun isFinite :: "jsnum \<Rightarrow> bool" where
  "isFinite (Fin a) = True"
| "isFinite _ = False"

text \<open>Truthiness of a number, and \<open>a || b\<close> on numbers: \<open>0\<close> and \<open>NaN\<close> are falsy.\<close>

definition truthy :: "jsnum \<Rightarrow> bool" where
  "truthy a = (a \<noteq> NaN \<and> a \<noteq> Fin 0)"

definition jor :: "jsnum \<Rightarrow> jsnum \<Rightarrow> jsnum" where
  "jor a b = (if truthy a then a else b)"

text \<open>
  \<open>Math.pow\<close>. An integral exponent is a repeated product or quotient; a fractional
  exponent of a positive base is the real power; a fractional exponent of a negative base
  is \<open>NaN\<close>. Any base to the power \<open>0\<close> is \<open>1\<close>, also \<open>NaN\<close>.
\<close>

definition isInt :: "real \<Rightarrow> bool" where
  "isInt e = (e = of_int \<lfloor>e\<rfloor>)"

fun jpow :: "jsnum \<Rightarrow> jsnum \<Rightarrow> jsnum" where
  "jpow _ NaN = NaN"
| "jpow b (Fin e) =
     (if e = 0 then Fin 1
      else case b of
        NaN \<Rightarrow> NaN
      | Fin x \<Rightarrow>
          (if x = 0 then (if 0 < e then Fin 0 else PInf)
           else if isInt e then Fin (x powi \<lfloor>e\<rfloor>)
           else if 0 < x then Fin (x powr e)
           else NaN)
      | PInf \<Rightarrow> (if 0 < e then PInf else Fin 0)
      | NInf \<Rightarrow> (if 0 < e then (if isInt e \<and> odd \<lfloor>e\<rfloor> then NInf else PInf) else Fin 0))"
| "jpow b PInf =
     (case b of
        NaN \<Rightarrow> NaN
      | Fin x \<Rightarrow> (if 1 < \<bar>x\<bar> then PInf else if \<bar>x\<bar> = 1 then NaN else Fin 0)
      | _ \<Rightarrow> PInf)"
| "jpow b NInf =
     (case b of
        NaN \<Rightarrow> NaN
      | Fin x \<Rightarrow> (if 1 < \<bar>x\<bar> then Fin 0 else if \<bar>x\<bar> = 1 then NaN else PInf)
      | _ \<Rightarrow> Fin 0)"

text \<open>
  \<open>+x.toFixed(2)\<close>: the nearest multiple of a cent, a tie going to the larger magnitude;
  from \<open>1e21\<close> on \<open>toFixed\<close> prints the number itself. The special values print as their
  names and read back unchanged.
\<close>

fun toFixed2 :: "jsnum \<Rightarrow> jsnum" where
  "toFixed2 (Fin x) =
     (if 10 ^ 21 \<le> \<bar>x\<bar> then Fin x
      else if x < 0 then Fin (- (of_int \<lfloor>- x * 100 + 1 / 2\<rfloor> / 100))
      else Fin (of_int \<lfloor>x * 100 + 1 / 2\<rfloor> / 100))"
| "toFixed2 s = s"

section \<open>IRRSolver: \<open>calculateIRR\<close> (valuationEngine.js)\<close>

definition MAX_ITER :: nat where
  "MAX_ITER = 100"

definition PRECISION :: jsnum where
  "PRECISION = Fin (1 / 1000000)"

text \<open>
  The inner loop \<open>for (t = 1; t < cashFlows.length; t++) npv += cashFlows[t] / Math.pow(1 + irr, t)\<close>,
  started from \<open>-principal\<close>. Entry \<open>0\<close> of the vector is never read.
\<close>

definition irrNpv :: "jsnum list \<Rightarrow> jsnum \<Rightarrow> jsnum \<Rightarrow> jsnum" where
  "irrNpv cashFlows prin irr =
     foldl (\<lambda>npv t. jadd npv (jdiv (cashFlows ! t) (jpow (jadd (Fin 1) irr) (Fin (real t)))))
       (jneg prin) [1..<length cashFlows]"

text \<open>
  The bisection loop, with the number of iterations still to run as its first argument.
  \<open>Inl r\<close> is the \<open>return irr * 12 * 100\<close> inside the loop (the residual fell below
  \<open>PRECISION\<close>); \<open>Inr irr\<close> is the loop running out, with the last midpoint.
\<close>

fun irrLoop :: "nat \<Rightarrow> jsnum list \<Rightarrow> jsnum \<Rightarrow> jsnum \<Rightarrow> jsnum \<Rightarrow> jsnum \<Rightarrow> jsnum + jsnum" where
  "irrLoop 0 cashFlows prin mn mx irr = Inr irr"
| "irrLoop (Suc k) cashFlows prin mn mx irr =
     (let npv = irrNpv cashFlows prin irr in
      if jlt (jabs npv) PRECISION then Inl (jmul (jmul irr (Fin 12)) (Fin 100))
      else
        let mn' = (if jgt npv (Fin 0) then irr else mn);
            mx' = (if jgt npv (Fin 0) then mx else irr)
        in irrLoop k cashFlows prin mn' mx' (jdiv (jadd mn' mx') (Fin 2)))"

definition calculateIRR :: "jsnum list \<Rightarrow> jsnum \<Rightarrow> jsnum" where
  "calculateIRR cashFlows prin =
     (case irrLoop MAX_ITER cashFlows prin (Fin 0) (Fin 1) (Fin (8 / 1000)) of
        Inl r \<Rightarrow> r
      | Inr irr \<Rightarrow>
          (let annualIrr = jmul (jmul irr (Fin 12)) (Fin 100) in
           if isFinite annualIrr \<and> jge annualIrr (Fin (- 5)) then annualIrr else NaN))"

section \<open>Strings\<close>

text \<open>
  Strings are ASCII. \<open>trim\<close> removes leading and trailing white space (tab, line feed,
  vertical tab, form feed, carriage return, space); \<open>toLowerCase\<close> and \<open>toUpperCase\<close>
  change the case of the letters \<open>A\<close> to \<open>Z\<close>.
\<close>

definition isWhite :: "char \<Rightarrow> bool" where
  "isWhite ch = (of_char ch \<in> {9, 10, 11, 12, 13, 32 :: nat})"

definition trim :: "string \<Rightarrow> string" where
  "trim s = rev (dropWhile isWhite (rev (dropWhile isWhite s)))"

definition lowerChar :: "char \<Rightarrow> char" where
  "lowerChar ch =
     (if 65 \<le> (of_char ch :: nat) \<and> (of_char ch :: nat) \<le> 90 then char_of (of_char ch + 32 :: nat) else ch)"

definition upperChar :: "char \<Rightarrow> char" where
  "upperChar ch =
     (if 97 \<le> (of_char ch :: nat) \<and> (of_char ch :: nat) \<le> 122 then char_of (of_char ch - 32 :: nat) else ch)"

definition toLowerCase :: "string \<Rightarrow> string" where
  "toLowerCase s = map lowerChar s"

definition toUpperCase :: "string \<Rightarrow> string" where
  "toUpperCase s = map upperChar s"

text \<open>The value of a decimal digit character, if it is one.\<close>

definition digitOf :: "char \<Rightarrow> nat option" where
  "digitOf ch =
     (if 48 \<le> (of_char ch :: nat) \<and> (of_char ch :: nat) \<le> 57 then Some (of_char ch - 48) else None)"

section \<open>Errors\<close>

text \<open>
  What the engines throw: the \<open>Error\<close> for an invalid \<open>loanStartDate\<close>
  (\<open>buildAmortSchedule\<close>), the \<open>Error\<close> "Valuation curves not loaded"
  (\<open>valueLoan\<close>), a \<open>TypeError\<close> for reading a property of \<open>undefined\<close>, and a
  \<open>RangeError\<close> for \<open>new Array\<close> with a length that is not a whole number.
\<close>

datatype error = InvalidStartDate | CurvesNotLoaded | TypeError | RangeError

section \<open>Configuration: assumptions, school tiers, risk curves\<close>

text \<open>
  The assumptions of a valuation profile. A field that is absent is \<open>None\<close>; the
  per-key tables are partial maps. (\<open>inflationAssumption\<close> is read by \<open>valueLoan\<close> into
  a local that nothing uses, and is left out.)
\<close>

record assumptions =
  riskPremiumBps :: "(string \<rightharpoonup> real) option"
  recoveryRate :: "(string \<rightharpoonup> real) option"
  prepaymentMultiplier :: "real option"
  ficoBorrowerAdjustment :: "real option"
  ficoCosignerAdjustment :: "real option"
  degreeAdjustmentsBps :: "(string \<rightharpoonup> real) option"
  schoolAdjustmentsBps :: "(string \<rightharpoonup> real) option"
  yearInSchoolAdjustmentsBps :: "(string \<rightharpoonup> real) option"
  graduateAdjustmentBps :: "real option"
  baseRiskFreeRate :: "real option"
  prepaySeasoningYears :: "real option"
  graduationRateThreshold :: "real option"
  earningsThreshold :: "real option"

text \<open>\<open>obj?.[key]\<close> on an optional table.\<close>

definition optLookup :: "(string \<rightharpoonup> real) option \<Rightarrow> string \<Rightarrow> real option" where
  "optLookup tbl k = (case tbl of None \<Rightarrow> None | Some m \<Rightarrow> m k)"

text \<open>An absent number used in arithmetic or a comparison is \<open>NaN\<close>.\<close>

definition numOf :: "real option \<Rightarrow> jsnum" where
  "numOf v = (case v of None \<Rightarrow> NaN | Some x \<Rightarrow> Fin x)"

text \<open>
  A record of the school-tier table. The table is an object keyed by OPEID, kept here as
  the association list of its own entries (the first entry of a key counts); \<open>None\<close> is
  the table not loaded yet.
\<close>

record schoolData =
  grad_rate :: "real option"
  median_earnings_10yr :: "real option"

type_synonym schoolTiers = "(string \<times> schoolData) list"

text \<open>
  \<open>SCHOOLTIERS[key]\<close>. The table is a plain object (the result of \<open>res.json()\<close>), so a
  key that is not one of its own entries is still found when it names a member that every
  object inherits from \<open>Object.prototype\<close>. Such a member is a function (for
  \<open>__proto__\<close>, the prototype object), which is truthy and has neither a \<open>grad_rate\<close> nor
  a \<open>median_earnings_10yr\<close>: it reads as a record with both fields absent.
\<close>

definition inheritedMembers :: "string list" where
  "inheritedMembers =
     [''constructor'', ''hasOwnProperty'', ''isPrototypeOf'', ''propertyIsEnumerable'',
      ''toLocaleString'', ''toString'', ''valueOf'', ''__proto__'', ''__defineGetter__'',
      ''__defineSetter__'', ''__lookupGetter__'', ''__lookupSetter__'']"

definition tableEntry :: "schoolTiers \<Rightarrow> string \<Rightarrow> schoolData option" where
  "tableEntry tbl key =
     (case map_of tbl key of
        Some d \<Rightarrow> Some d
      | None \<Rightarrow>
          if key \<in> set inheritedMembers
          then Some \<lparr> grad_rate = None, median_earnings_10yr = None \<rparr>
          else None)"

text \<open>
  A risk curve of the valuation-curve table (keyed by risk tier). \<open>cumulativeDefaultPct\<close>
  is \<open>defaultCurve.cumulativeDefaultPct\<close>, \<open>valuesPct\<close> is \<open>prepaymentCurve.valuesPct\<close>;
  \<open>None\<close> means the curve object has no such part.
\<close>

record recoveryCfg =
  grossRecoveryPct :: "real option"
  recoveryLagMonths :: "nat option"

record riskCurve =
  curveRiskPremiumBps :: "real option"
  cumulativeDefaultPct :: "real list option"
  valuesPct :: "real list option"
  recovery :: "recoveryCfg option"

section \<open>RiskClassifier (valuationEngine.js)\<close>

definition deriveFicoBand :: "real option \<Rightarrow> string" where
  "deriveFicoBand fico =
     (case fico of
        None \<Rightarrow> ''UNKNOWN''
      | Some f \<Rightarrow>
          if 760 \<le> f then ''A''
          else if 720 \<le> f then ''B''
          else if 680 \<le> f then ''C''
          else if 640 \<le> f then ''D''
          else ''E'')"

text \<open>\<open>computeSchoolTier\<close>: \<open>grad_rate || 0\<close> and \<open>median_earnings_10yr || 50000\<close>.\<close>

definition computeSchoolTier :: "schoolData \<Rightarrow> assumptions \<Rightarrow> string" where
  "computeSchoolTier sd a =
     (let grad = (case grad_rate sd of None \<Rightarrow> 0 | Some g \<Rightarrow> g);
          earn = (case median_earnings_10yr sd of None \<Rightarrow> 50000 | Some e \<Rightarrow> if e = 0 then 50000 else e)
      in if jge (Fin grad) (numOf (graduationRateThreshold a)) \<and> jge (Fin earn) (numOf (earningsThreshold a))
         then ''Tier 1''
         else if jge (Fin grad) (jmul (numOf (graduationRateThreshold a)) (Fin (8 / 10)))
               \<or> jge (Fin earn) (jmul (numOf (earningsThreshold a)) (Fin (8 / 10)))
         then ''Tier 2''
         else ''Tier 3'')"

text \<open>
  \<open>getSchoolTier\<close>. The table not loaded or empty (no own entries) gives \<open>"Tier 3"\<close>.
  Otherwise the record is looked up by the trimmed OPEID, falling back to the
  \<open>"DEFAULT"\<close> record when the OPEID is absent, empty or not found; a table without a
  \<open>"DEFAULT"\<close> record then makes \<open>schoolData.median_earnings_10yr\<close> throw. (The
  assignment of \<open>50000\<close> to a \<open>null\<close> \<open>median_earnings_10yr\<close> changes the table, not
  the result: \<open>computeSchoolTier\<close> reads \<open>null\<close> as \<open>50000\<close> as well.)
\<close>

definition getSchoolTier ::
  "schoolTiers option \<Rightarrow> string \<Rightarrow> string option \<Rightarrow> assumptions \<Rightarrow> error + string" where
  "getSchoolTier SCHOOLTIERS schoolName opeid a =
     (case SCHOOLTIERS of
        None \<Rightarrow> Inr ''Tier 3''
      | Some tbl \<Rightarrow>
          if tbl = [] then Inr ''Tier 3''
          else
            let sd =
              (case opeid of
                 None \<Rightarrow> tableEntry tbl ''DEFAULT''
               | Some oid \<Rightarrow>
                   if oid = [] then tableEntry tbl ''DEFAULT''
                   else (case tableEntry tbl (trim oid) of
                           Some d \<Rightarrow> Some d
                         | None \<Rightarrow> tableEntry tbl ''DEFAULT''))
            in (case sd of None \<Rightarrow> Inl TypeError | Some d \<Rightarrow> Inr (computeSchoolTier d a)))"

text \<open>\<open>getSchoolAdjBps\<close>: \<open>adjMap[tier] || +100\<close>, so the \<open>0\<close> of Tier 2 reads as \<open>100\<close>.\<close>

definition getSchoolAdjBps :: "string \<Rightarrow> real" where
  "getSchoolAdjBps tier =
     (let adj = (if tier = ''Tier 1'' then Some (- 75)
                 else if tier = ''Tier 2'' then Some 0
                 else if tier = ''Tier 3'' then Some 125
                 else if tier = ''Unknown'' then Some 100
                 else None)
      in case adj of None \<Rightarrow> 100 | Some x \<Rightarrow> if x = 0 then 100 else x)"

text \<open>
  A borrower. A FICO score that is absent or \<open>null\<close> is \<open>0\<close> (both are falsy and count
  as \<open>0\<close> in the blend). The year in school is a whole number, a one-letter grade-level
  code, \<open>null\<close> or absent.
\<close>

datatype yearInSchool = YearNum nat | YearCode char | YearNull | YearUndefined

record borrower =
  borrowerId :: string
  borrowerFico :: real
  cosignerFico :: real
  yearInSchool :: yearInSchool
  isGraduateStudent :: bool
  school :: "string option"
  opeid :: "string option"
  degreeType :: string

text \<open>
  \<open>yearMap[yearNum] || parseInt(yearNum) || 1\<close> of \<open>deriveRiskTier\<close>, where
  \<open>yearNum\<close> is the upper-cased code or the decimal print of the number.
\<close>

definition effectiveYear :: "yearInSchool \<Rightarrow> nat" where
  "effectiveYear y =
     (case y of
        YearUndefined \<Rightarrow> 1
      | YearNull \<Rightarrow> 1
      | YearNum n \<Rightarrow> (if n = 0 then 1 else n)
      | YearCode ch \<Rightarrow>
          (let u = upperChar ch in
           if u = CHR ''A'' then 6
           else if u = CHR ''B'' then 7
           else if u = CHR ''C'' then 8
           else if u = CHR ''D'' then 9
           else if u = CHR ''Z'' then 1
           else (case digitOf u of None \<Rightarrow> 1 | Some d \<Rightarrow> if d = 0 then 1 else d)))"

definition deriveRiskTier :: "borrower \<Rightarrow> assumptions \<Rightarrow> string" where
  "deriveRiskTier b a =
     (let alpha = 7 / 10;
          blendedFico = max (borrowerFico b) (alpha * borrowerFico b + (1 - alpha) * cosignerFico b);
          band = deriveFicoBand (Some blendedFico);
          riskTier0 =
            (if band = ''A'' \<and> 3 \<le> effectiveYear (yearInSchool b) then ''LOW''
             else if band \<in> set [''A'', ''B''] then ''MEDIUM''
             else if band \<in> set [''C'', ''D''] then ''HIGH''
             else ''VERY_HIGH'')
      in if 780 \<le> blendedFico then ''LOW''
         else if 720 \<le> blendedFico \<and> riskTier0 = ''HIGH'' then ''MEDIUM''
         else riskTier0)"

section \<open>Loans and amortization rows (data model)\<close>

text \<open>
  A date enters the schedule only through its calendar month (every \<open>calendarDate\<close> and
  \<open>loanDate\<close> is the first of a month; events are keyed by \<open>"YYYY-MM"\<close>), so a date is
  modelled by its month, counted as \<open>year * 12 + month\<close>. An optional date is \<open>None\<close>
  when the field is absent or does not parse to a valid date.
\<close>

type_synonym month = int

text \<open>
  A loan event: its date (\<open>startDate || date\<close> for a deferral) and its amount
  (\<open>amount\<close>, \<open>months\<close>, \<open>recoveryAmount\<close>; an absent amount counts as \<open>0\<close>,
  as \<open>Number(e.amount || 0)\<close> reads it).
\<close>

datatype loanEvent =
    PrepaymentEvent "month option" real
  | DeferralEvent "month option" real
  | DefaultEvent "month option" real
  | OtherEvent

record ownershipLot =
  user :: string
  pct :: real

record loan =
  loanId :: string
  loanBorrowerId :: string
  principal :: real
  nominalRate :: real
  termYears :: real
  graceYears :: real
  loanStartDate :: "month option"
  purchaseDate :: "month option"
  events :: "loanEvent list"
  ownershipLots :: "ownershipLot list"

text \<open>
  What \<open>buildAmortSchedule\<close> resolves from the user table, the waiver tokens and the fee
  configuration before its loop: whether the loan's user has the role \<open>"lender"\<close>, the
  two waiver flags, the setup fee and the monthly servicing rate. They feed the
  \<open>feeThisMonth\<close> column only.
\<close>

record feeTerms =
  roleIsLender :: bool
  waiveSetup :: bool
  waiveMonthly :: bool
  SETUP_FEE_AMOUNT :: real
  MONTHLY_SERVICING_RATE :: real

text \<open>
  A row of the schedule. Flags that a row does not carry are \<open>False\<close>. The columns
  \<open>displayDate\<close>, \<open>ownershipDate\<close>, \<open>prepayment\<close>, \<open>recovery\<close>, \<open>deferralIndex\<close>,
  \<open>deferralRemaining\<close> and \<open>maturityDate\<close> repeat other columns or the loop counters
  for display and are left out.
\<close>

record amortRow =
  monthIndex :: nat
  loanDate :: month
  payment :: jsnum
  scheduledPrincipal :: jsnum
  prepaymentPrincipal :: jsnum
  principalPaid :: jsnum
  interest :: jsnum
  balance :: jsnum
  accruedInterest :: jsnum
  feeThisMonth :: jsnum
  isDeferred :: bool
  isOwned :: bool
  defaulted :: bool
  isTerminal :: bool
  isPaidOff :: bool
  contractualMonth :: nat
  cumPrincipal :: jsnum
  cumInterest :: jsnum
  cumPayment :: jsnum

section \<open>ScheduleBuilder: \<open>buildAmortSchedule\<close> (loanEngine.js)\<close>

definition monthlyRate :: "loan \<Rightarrow> real" where
  "monthlyRate loan = nominalRate loan / 12"

definition graceMonths :: "loan \<Rightarrow> real" where
  "graceMonths loan = graceYears loan * 12"

definition repaymentMonths :: "loan \<Rightarrow> real" where
  "repaymentMonths loan = termYears loan * 12"

definition totalMonths :: "loan \<Rightarrow> real" where
  "totalMonths loan = graceMonths loan + repaymentMonths loan"

definition originalMonthlyPayment :: "loan \<Rightarrow> jsnum" where
  "originalMonthlyPayment loan =
     (if 0 < repaymentMonths loan
      then jdiv (Fin (principal loan * monthlyRate loan))
             (jsub (Fin 1) (jpow (Fin (1 + monthlyRate loan)) (Fin (- repaymentMonths loan))))
      else Fin 0)"

text \<open>The amounts of the prepayment events of a month, in the order of the event list.\<close>

fun prepayMap :: "loanEvent list \<Rightarrow> month \<Rightarrow> real list" where
  "prepayMap [] k = []"
| "prepayMap (PrepaymentEvent (Some d) amt # es) k =
     (if d = k then amt # prepayMap es k else prepayMap es k)"
| "prepayMap (e # es) k = prepayMap es k"

text \<open>
  The deferral months starting in a month: the sum of \<open>Math.floor(months)\<close> over the
  deferral events of that month with a date and \<open>months > 0\<close>. A month without such an
  event has no entry, which the loop reads like \<open>0\<close>.
\<close>

fun deferralStartMap :: "loanEvent list \<Rightarrow> month \<Rightarrow> nat" where
  "deferralStartMap [] k = 0"
| "deferralStartMap (DeferralEvent (Some d) m # es) k =
     (if d = k \<and> 0 < m then nat \<lfloor>m\<rfloor> + deferralStartMap es k else deferralStartMap es k)"
| "deferralStartMap (e # es) k = deferralStartMap es k"

text \<open>The first default event that has a date: its month and its recovery amount.\<close>

fun defaultEvent :: "loanEvent list \<Rightarrow> (month \<times> real) option" where
  "defaultEvent [] = None"
| "defaultEvent (DefaultEvent (Some d) r # es) = Some (d, r)"
| "defaultEvent (e # es) = defaultEvent es"

definition defaultMonthKey :: "loan \<Rightarrow> month option" where
  "defaultMonthKey loan = map_option fst (defaultEvent (events loan))"

definition defaultRecovery :: "loan \<Rightarrow> real" where
  "defaultRecovery loan = (case defaultEvent (events loan) of None \<Rightarrow> 0 | Some (d, r) \<Rightarrow> r)"

text \<open>
  The loop variables: \<open>i\<close>, \<open>balance\<close>, \<open>calendarDate\<close>, \<open>deferralRemaining\<close>,
  \<open>deferralTotal\<close>, and the length of \<open>schedule\<close>.
\<close>

record amortState =
  st_i :: nat
  st_balance :: jsnum
  st_calendarDate :: month
  st_deferralRemaining :: nat
  st_deferralTotal :: nat
  st_length :: nat

definition addMonths :: "month \<Rightarrow> int \<Rightarrow> month" where
  "addMonths d n = d + n"

definition feeOfMonth :: "feeTerms \<Rightarrow> month \<Rightarrow> amortState \<Rightarrow> jsnum" where
  "feeOfMonth fees purchaseMonth s =
     (let owned = (purchaseMonth \<le> st_calendarDate s);
          isFirstOwnedMonth = (owned \<and> st_calendarDate s = purchaseMonth);
          fee1 = (if isFirstOwnedMonth \<and> roleIsLender fees \<and> \<not> waiveSetup fees
                  then jadd (Fin 0) (Fin (SETUP_FEE_AMOUNT fees)) else Fin 0)
      in if owned \<and> \<not> waiveMonthly fees
         then jadd fee1 (jmul (st_balance s) (Fin (MONTHLY_SERVICING_RATE fees)))
         else fee1)"

text \<open>
  The prepayments of a month applied in turn, each up to the balance left:
  the pair of \<open>prepaymentThisMonth\<close> and the new balance.
\<close>

definition applyPrepayments :: "real list \<Rightarrow> jsnum \<Rightarrow> jsnum \<times> jsnum" where
  "applyPrepayments amts bal0 =
     foldl (\<lambda>(prepaid, bal) amt.
              if 0 < amt
              then (let applied = jmin bal (Fin amt) in (jadd prepaid applied, jsub bal applied))
              else (prepaid, bal))
       (Fin 0, bal0) amts"

text \<open>The default row, and the loop stops.\<close>

definition defaultRow :: "feeTerms \<Rightarrow> loan \<Rightarrow> month \<Rightarrow> amortState \<Rightarrow> amortRow" where
  "defaultRow fees loan purchaseMonth s =
     (let applied = jmin (st_balance s) (Fin (defaultRecovery loan));
          bal = jsub (st_balance s) applied
      in \<lparr> monthIndex = st_length s + 1,
           loanDate = st_calendarDate s,
           payment = toFixed2 applied,
           scheduledPrincipal = Fin 0,
           prepaymentPrincipal = toFixed2 applied,
           principalPaid = toFixed2 applied,
           interest = Fin 0,
           balance = toFixed2 bal,
           accruedInterest = Fin 0,
           feeThisMonth = toFixed2 (feeOfMonth fees purchaseMonth s),
           isDeferred = False,
           isOwned = (purchaseMonth \<le> st_calendarDate s),
           defaulted = True,
           isTerminal = True,
           isPaidOff = False,
           contractualMonth = st_i s + 1,
           cumPrincipal = Fin 0, cumInterest = Fin 0, cumPayment = Fin 0 \<rparr>)"

text \<open>A deferral batch starts when none is running and the month has deferral months.\<close>

definition deferralStart :: "loan \<Rightarrow> amortState \<Rightarrow> amortState" where
  "deferralStart loan s =
     (if st_deferralRemaining s = 0 \<and> deferralStartMap (events loan) (st_calendarDate s) \<noteq> 0
      then s\<lparr> st_deferralRemaining := deferralStartMap (events loan) (st_calendarDate s),
              st_deferralTotal := deferralStartMap (events loan) (st_calendarDate s) \<rparr>
      else s)"

text \<open>A deferral month: interest is capitalised, prepayments apply, and the loop continues.\<close>

definition deferralMonth :: "feeTerms \<Rightarrow> loan \<Rightarrow> month \<Rightarrow> amortState \<Rightarrow> amortRow \<times> amortState" where
  "deferralMonth fees loan purchaseMonth s =
     (let accrued = jmul (st_balance s) (Fin (monthlyRate loan));
          bal1 = jadd (st_balance s) accrued;
          (prepaymentThisMonth, bal2) = applyPrepayments (prepayMap (events loan) (st_calendarDate s)) bal1
      in (\<lparr> monthIndex = st_length s + 1,
             loanDate = st_calendarDate s,
             payment = Fin 0,
             scheduledPrincipal = Fin 0,
             prepaymentPrincipal = toFixed2 prepaymentThisMonth,
             principalPaid = toFixed2 prepaymentThisMonth,
             interest = Fin 0,
             balance = toFixed2 bal2,
             accruedInterest = toFixed2 accrued,
             feeThisMonth = toFixed2 (feeOfMonth fees purchaseMonth s),
             isDeferred = True,
             isOwned = (purchaseMonth \<le> st_calendarDate s),
             defaulted = False,
             isTerminal = False,
             isPaidOff = False,
             contractualMonth = st_i s + 1,
             cumPrincipal = Fin 0, cumInterest = Fin 0, cumPayment = Fin 0 \<rparr>,
          s\<lparr> st_balance := bal2,
             st_deferralRemaining := st_deferralRemaining s - 1,
             st_calendarDate := addMonths (st_calendarDate s) 1,
             st_i := st_i s + 1,
             st_length := st_length s + 1 \<rparr>))"

text \<open>
  A normal month: interest is capitalised inside the grace window, otherwise the level
  payment is made; then the prepayments of the month apply.
\<close>

definition normalMonth ::
  "feeTerms \<Rightarrow> loan \<Rightarrow> month \<Rightarrow> month \<Rightarrow> amortState \<Rightarrow> amortRow \<times> amortState" where
  "normalMonth fees loan start purchaseMonth s =
     (let intr = jmul (st_balance s) (Fin (monthlyRate loan));
          monthsSinceLoanStart = st_calendarDate s - start;
          inGrace = (real_of_int monthsSinceLoanStart < graceMonths loan);
          paymentAmt = (if inGrace then Fin 0 else originalMonthlyPayment loan);
          schedPrin = (if inGrace then Fin 0 else jmin (jsub paymentAmt intr) (st_balance s));
          bal1 = (if inGrace then jadd (st_balance s) intr
                  else (let b = jmax (Fin 0) (jsub (st_balance s) schedPrin)
                        in if jle b (Fin (1 / 100)) then Fin 0 else b));
          (prepaymentThisMonth, bal2) = applyPrepayments (prepayMap (events loan) (st_calendarDate s)) bal1
      in (\<lparr> monthIndex = st_length s + 1,
             loanDate = st_calendarDate s,
             payment = toFixed2 paymentAmt,
             scheduledPrincipal = toFixed2 schedPrin,
             prepaymentPrincipal = toFixed2 prepaymentThisMonth,
             principalPaid = toFixed2 (jadd schedPrin prepaymentThisMonth),
             interest = toFixed2 intr,
             balance = toFixed2 bal2,
             accruedInterest = Fin 0,
             feeThisMonth = toFixed2 (feeOfMonth fees purchaseMonth s),
             isDeferred = False,
             isOwned = (purchaseMonth \<le> st_calendarDate s),
             defaulted = False,
             isTerminal = False,
             isPaidOff = False,
             contractualMonth = st_i s + 1,
             cumPrincipal = Fin 0, cumInterest = Fin 0, cumPayment = Fin 0 \<rparr>,
          s\<lparr> st_balance := bal2,
             st_calendarDate := addMonths (st_calendarDate s) 1,
             st_i := st_i s + 1,
             st_length := st_length s + 1 \<rparr>))"

text \<open>
  The contractual month loop \<open>for (let i = 0; i < totalMonths; )\<close>. It returns the rows it
  pushes from the given state on. The \<open>break\<close> after the default row and the one of the
  early paid-off check (which first marks the row just pushed) end the list.
\<close>

function amortLoop :: "feeTerms \<Rightarrow> loan \<Rightarrow> month \<Rightarrow> month \<Rightarrow> amortState \<Rightarrow> amortRow list" where
  "amortLoop fees loan start purchaseMonth s =
     (if real (st_i s) < totalMonths loan then
        (if defaultMonthKey loan = Some (st_calendarDate s)
         then [defaultRow fees loan purchaseMonth s]
         else
           (let s1 = deferralStart loan s in
            if 0 < st_deferralRemaining s1
            then fst (deferralMonth fees loan purchaseMonth s1)
                   # amortLoop fees loan start purchaseMonth (snd (deferralMonth fees loan purchaseMonth s1))
            else
              (let row = fst (normalMonth fees loan start purchaseMonth s1);
                   s2 = snd (normalMonth fees loan start purchaseMonth s1)
               in if jle (st_balance s2) (Fin 0)
                  then [row\<lparr> isTerminal := True, isPaidOff := True \<rparr>]
                  else row # amortLoop fees loan start purchaseMonth s2)))
      else [])"
  by pat_completeness auto

text \<open>The loop ends: \<open>i\<close> grows by one in every round that continues.\<close>

lemma less_nat_ceiling: "real i < t \<Longrightarrow> i < nat \<lceil>t\<rceil>"
  by linarith

termination amortLoop
  by (relation "measure (\<lambda>(fees, loan, start, purchaseMonth, s). nat \<lceil>totalMonths loan\<rceil> - st_i s)")
     (auto simp: deferralMonth_def normalMonth_def deferralStart_def Let_def split: prod.splits
           dest!: less_nat_ceiling)

declare amortLoop.simps [simp del]

text \<open>
  The pass over the finished schedule: the cumulative columns run over the owned rows
  (\<open>r.isOwned !== false\<close>), and the last row's \<open>isPaidOff\<close> is set from its balance
  column.
\<close>

fun cumulate :: "jsnum \<Rightarrow> jsnum \<Rightarrow> jsnum \<Rightarrow> amortRow list \<Rightarrow> amortRow list" where
  "cumulate cumP cumI cumPay [] = []"
| "cumulate cumP cumI cumPay (r # rs) =
     (let cumP' = (if isOwned r then jadd cumP (principalPaid r) else cumP);
          cumI' = (if isOwned r then jadd cumI (interest r) else cumI);
          cumPay' = (if isOwned r then jadd cumPay (payment r) else cumPay)
      in r\<lparr> cumPrincipal := toFixed2 cumP', cumInterest := toFixed2 cumI',
              cumPayment := toFixed2 cumPay' \<rparr>
           # cumulate cumP' cumI' cumPay' rs)"

definition markLast :: "amortRow list \<Rightarrow> amortRow list" where
  "markLast rows =
     (if rows = [] then []
      else butlast rows @ [(last rows)\<lparr> isPaidOff := jle (balance (last rows)) (Fin 0) \<rparr>])"

text \<open>
  \<open>buildAmortSchedule\<close>. An absent or invalid \<open>loanStartDate\<close> throws; an absent or
  invalid \<open>purchaseDate\<close> falls back to the start date.
\<close>

definition buildAmortSchedule :: "feeTerms \<Rightarrow> loan \<Rightarrow> error + amortRow list" where
  "buildAmortSchedule fees loan =
     (case loanStartDate loan of
        None \<Rightarrow> Inl InvalidStartDate
      | Some start \<Rightarrow>
          (let purchaseMonth = (case purchaseDate loan of None \<Rightarrow> start | Some d \<Rightarrow> d);
               schedule = amortLoop fees loan start purchaseMonth
                 \<lparr> st_i = 0, st_balance = Fin (principal loan), st_calendarDate = start,
                   st_deferralRemaining = 0, st_deferralTotal = 0, st_length = 0 \<rparr>
           in Inr (markLast (cumulate (Fin 0) (Fin 0) (Fin 0) schedule))))"

section \<open>CurveInterpolator (valuationEngine.js)\<close>

text \<open>
  The inner loop \<open>for (m = 0; m < 12 && monthly.length < maxMonths; m++) monthly.push(v)\<close>,
  with the number of rounds left as its first argument.
\<close>

fun fillYear :: "nat \<Rightarrow> nat \<Rightarrow> jsnum \<Rightarrow> jsnum list \<Rightarrow> jsnum list" where
  "fillYear 0 maxMonths v monthly = monthly"
| "fillYear (Suc k) maxMonths v monthly =
     (if length monthly < maxMonths then fillYear k maxMonths v (monthly @ [v]) else monthly)"

text \<open>The annual rate in percent as a monthly hazard rate: \<open>1 - Math.pow(1 - pct / 100, 1 / 12)\<close>.\<close>

definition monthlyHazard :: "real \<Rightarrow> jsnum" where
  "monthlyHazard annualPct =
     jsub (Fin 1) (jpow (jsub (Fin 1) (Fin (annualPct / 100))) (Fin (1 / 12)))"

text \<open>The outer loop over the curve years still to visit.\<close>

fun yearsLoop :: "real list \<Rightarrow> nat \<Rightarrow> jsnum list \<Rightarrow> jsnum list" where
  "yearsLoop [] maxMonths monthly = monthly"
| "yearsLoop (annualPct # rest) maxMonths monthly =
     (if length monthly < maxMonths
      then yearsLoop rest maxMonths (fillYear 12 maxMonths (monthlyHazard annualPct) monthly)
      else monthly)"

text \<open>
  \<open>while (monthly.length < maxMonths) monthly.push(monthly[monthly.length - 1] || 0)\<close>:
  the last rate is repeated (\<open>0\<close> if there is none, or if it is \<open>0\<close> or \<open>NaN\<close>).
\<close>

function padLast :: "nat \<Rightarrow> jsnum list \<Rightarrow> jsnum list" where
  "padLast maxMonths monthly =
     (if length monthly < maxMonths
      then padLast maxMonths (monthly @ [jor (if monthly = [] then NaN else last monthly) (Fin 0)])
      else monthly)"
  by pat_completeness auto

termination padLast
  by (relation "measure (\<lambda>(maxMonths, monthly). maxMonths - length monthly)") auto

declare padLast.simps [simp del]

text \<open>The year-over-year marginal percentages of a cumulative curve.\<close>

definition annualDefaults :: "real list \<Rightarrow> real list" where
  "annualDefaults cumDefaultsPct =
     map (\<lambda>i. if i = 0 then cumDefaultsPct ! i else cumDefaultsPct ! i - cumDefaultsPct ! (i - 1))
       [0..<length cumDefaultsPct]"

definition interpolateCumulativeDefaultsToMonthlyPD :: "real list \<Rightarrow> nat \<Rightarrow> jsnum list" where
  "interpolateCumulativeDefaultsToMonthlyPD cumDefaultsPct maxMonths =
     padLast maxMonths (yearsLoop (annualDefaults cumDefaultsPct) maxMonths [])"

definition interpolateAnnualCPRToMonthlySMM :: "real list \<Rightarrow> nat \<Rightarrow> jsnum list" where
  "interpolateAnnualCPRToMonthlySMM annualCPRPct maxMonths =
     padLast maxMonths (yearsLoop annualCPRPct maxMonths [])"

section \<open>ValuationEngine: \<open>valueLoan\<close> (valuationEngine.js)\<close>

text \<open>
  The module state that a valuation reads: the loaded curve table (keyed by risk tier;
  \<open>None\<close> before it is loaded), the school-tier table, the system profile, the fee terms
  that \<open>buildAmortSchedule\<close> resolves for a loan, the month of \<open>new Date()\<close>, the
  borrower table and the per-loan borrower overrides (an override object is merged over
  the borrower, modelled as an update of the borrower).
\<close>

record env =
  VALUATION_CURVES :: "(string \<rightharpoonup> riskCurve) option"
  SCHOOLTIERS :: "schoolTiers option"
  SYSTEM_PROFILE :: assumptions
  feesOf :: "loan \<Rightarrow> feeTerms"
  today :: month
  BORROWERS :: "borrower list"
  VALUATION_OVERRIDES :: "string \<rightharpoonup> (borrower \<Rightarrow> borrower)"

record riskBreakdown =
  baseRiskBps :: "real option"
  degreeAdj :: real
  schoolAdj :: real
  yearAdj :: real
  gradAdj :: real
  ficoAdj :: real
  totalRiskBps :: jsnum
  schoolTier :: string

record cashflowRow =
  cf_month :: nat
  beginningBalance :: jsnum
  cf_interest :: jsnum
  cf_scheduledPrincipal :: jsnum
  prepayment :: jsnum
  defaultAmount :: jsnum
  cf_recovery :: jsnum
  endingBalance :: jsnum
  cashFlow :: jsnum
  discountedCashFlow :: jsnum
  cumulativeLoss :: jsnum

text \<open>
  The result of \<open>valueLoan\<close>. \<open>discountRate\<close> and \<open>npvRatio\<close> are \<open>None\<close> where the
  code returns \<open>null\<close>; \<open>expectedLossPct\<close> and \<open>riskBreakdown\<close> are \<open>None\<close> where the
  returned object has no such property (or an empty breakdown). The \<open>dateLabels\<close> and
  \<open>projections\<close> of the chart, the echo of the assumptions and of the curve are left out.
\<close>

record valuation =
  v_loanId :: string
  riskTier :: string
  discountRate :: "jsnum option"
  npv :: jsnum
  npvRatio :: "jsnum option"
  expectedLoss :: jsnum
  expectedLossPct :: "jsnum option"
  wal :: jsnum
  irr :: jsnum
  riskBreakdown :: "riskBreakdown option"
  cashflowSchedule :: "cashflowRow list"

text \<open>\<open>Number(x) || d\<close> on a number.\<close>

definition numOr :: "real \<Rightarrow> real \<Rightarrow> real" where
  "numOr x d = (if x = 0 then d else x)"

definition originalPrincipal :: "loan \<Rightarrow> real" where
  "originalPrincipal loan = numOr (principal loan) 0"

definition loanRate :: "loan \<Rightarrow> real" where
  "loanRate loan = numOr (nominalRate loan) 0"

definition originalTermMonths :: "loan \<Rightarrow> real" where
  "originalTermMonths loan = numOr (termYears loan) 10 * 12 + numOr (graceYears loan) 0 * 12"

text \<open>The sentinel "unvalued" result of a loan whose basics are invalid.\<close>

definition unvalued :: "loan \<Rightarrow> valuation" where
  "unvalued loan =
     \<lparr> v_loanId = loanId loan, riskTier = ''UNKNOWN'', discountRate = None, npv = NaN,
       npvRatio = None, expectedLoss = NaN, expectedLossPct = None, wal = NaN, irr = NaN,
       riskBreakdown = None, cashflowSchedule = [] \<rparr>"

text \<open>
  \<open>amort.slice().reverse().find(r => r.loanDate <= today)\<close> and the \<open>indexOf\<close> of the
  row found: the last row that is not in the future.
\<close>

fun findLastIndex :: "('a \<Rightarrow> bool) \<Rightarrow> 'a list \<Rightarrow> nat option" where
  "findLastIndex P [] = None"
| "findLastIndex P (x # xs) =
     (case findLastIndex P xs of
        Some j \<Rightarrow> Some (Suc j)
      | None \<Rightarrow> if P x then Some 0 else None)"

definition currentIndex :: "month \<Rightarrow> amortRow list \<Rightarrow> nat option" where
  "currentIndex now amort = findLastIndex (\<lambda>r. loanDate r \<le> now) amort"

text \<open>
  The current balance: the balance column of the current row (the original principal
  when no row is current), and \<open>0\<close> when that is not finite or negative.
\<close>

definition currentBalance :: "month \<Rightarrow> loan \<Rightarrow> amortRow list \<Rightarrow> real" where
  "currentBalance now loan amort =
     (case (case currentIndex now amort of
              None \<Rightarrow> Fin (originalPrincipal loan)
            | Some j \<Rightarrow> balance (amort ! j)) of
        Fin x \<Rightarrow> if x < 0 then 0 else x
      | _ \<Rightarrow> 0)"

definition termMonths :: "month \<Rightarrow> loan \<Rightarrow> amortRow list \<Rightarrow> real" where
  "termMonths now loan amort =
     (let remainingMonths =
        (case currentIndex now amort of
           None \<Rightarrow> originalTermMonths loan
         | Some j \<Rightarrow> real (length amort - j - 1))
      in max remainingMonths 1)"

text \<open>The closed-form result of a loan with no balance left.\<close>

definition paidOff :: "loan \<Rightarrow> borrower \<Rightarrow> assumptions \<Rightarrow> real \<Rightarrow> valuation" where
  "paidOff loan borrower a riskFreeRate =
     \<lparr> v_loanId = loanId loan, riskTier = deriveRiskTier borrower a,
       discountRate = Some (Fin riskFreeRate), npv = Fin 0, npvRatio = Some (Fin 0),
       expectedLoss = Fin 0, expectedLossPct = None, wal = Fin 0, irr = Fin 0,
       riskBreakdown = None, cashflowSchedule = [] \<rparr>"

definition computeMonthlyPayment :: "real \<Rightarrow> real \<Rightarrow> real \<Rightarrow> jsnum" where
  "computeMonthlyPayment prin annualRate months =
     (let r = annualRate / 12
      in jdiv (Fin (prin * r)) (jsub (Fin 1) (jpow (Fin (1 + r)) (Fin (- months)))))"

subsection \<open>Risk tier, curve and discount rate\<close>

text \<open>\<open>VALUATION_CURVES?.riskTiers[riskTier] || { riskPremiumBps: 550 }\<close>.\<close>

definition curveFor :: "(string \<rightharpoonup> riskCurve) \<Rightarrow> string \<Rightarrow> riskCurve" where
  "curveFor curves tier =
     (case curves tier of
        Some c \<Rightarrow> c
      | None \<Rightarrow> \<lparr> curveRiskPremiumBps = Some 550, cumulativeDefaultPct = None,
                  valuesPct = None, recovery = None \<rparr>)"

definition userRiskBps :: "assumptions \<Rightarrow> string \<Rightarrow> riskCurve \<Rightarrow> jsnum" where
  "userRiskBps a tier curve =
     (case optLookup (riskPremiumBps a) tier of
        Some x \<Rightarrow> Fin x
      | None \<Rightarrow> numOf (curveRiskPremiumBps curve))"

definition userRecoveryPct :: "assumptions \<Rightarrow> string \<Rightarrow> riskCurve \<Rightarrow> real" where
  "userRecoveryPct a tier curve =
     (case optLookup (recoveryRate a) tier of
        Some x \<Rightarrow> x
      | None \<Rightarrow>
          (case (case recovery curve of None \<Rightarrow> None | Some rc \<Rightarrow> grossRecoveryPct rc) of
             Some x \<Rightarrow> x
           | None \<Rightarrow> 20)) / 100"

definition ficoAdjOf :: "assumptions \<Rightarrow> borrower \<Rightarrow> real" where
  "ficoAdjOf a borrower =
     (if borrowerFico borrower \<noteq> 0
      then (case ficoBorrowerAdjustment a of None \<Rightarrow> 50 | Some x \<Rightarrow> x) else 0)
     + (if cosignerFico borrower \<noteq> 0
        then (case ficoCosignerAdjustment a of None \<Rightarrow> 25 | Some x \<Rightarrow> x) else 0)"

definition normalizedDegree :: "borrower \<Rightarrow> string" where
  "normalizedDegree borrower =
     (if degreeType borrower = ''STEM'' then ''STEM''
      else if degreeType borrower = ''Business'' then ''BUSINESS''
      else if degreeType borrower = ''Liberal Arts'' then ''LIBERAL_ARTS''
      else if degreeType borrower = ''Professional (e.g. Nursing, Law)'' then ''PROFESSIONAL''
      else if degreeType borrower = ''Other'' then ''OTHER''
      else ''UNKNOWN'')"

definition degreeAdjOf :: "assumptions \<Rightarrow> borrower \<Rightarrow> real" where
  "degreeAdjOf a borrower =
     (case optLookup (degreeAdjustmentsBps a) (normalizedDegree borrower) of
        None \<Rightarrow> 0 | Some x \<Rightarrow> x)"

definition schoolAdjOf :: "assumptions \<Rightarrow> string \<Rightarrow> real" where
  "schoolAdjOf a tier =
     (case optLookup (schoolAdjustmentsBps a) tier of
        None \<Rightarrow> getSchoolAdjBps tier | Some x \<Rightarrow> x)"

text \<open>
  \<open>borrower.yearInSchool >= 5 ? "5+" : String(borrower.yearInSchool)\<close>; a digit
  character compares as its number, any other code compares false.
\<close>

definition yearKey :: "yearInSchool \<Rightarrow> string" where
  "yearKey y =
     (case y of
        YearNum n \<Rightarrow> if 5 \<le> n then ''5+'' else [char_of (n + 48)]
      | YearCode ch \<Rightarrow>
          (case digitOf ch of Some d \<Rightarrow> if 5 \<le> d then ''5+'' else [ch] | None \<Rightarrow> [ch])
      | YearNull \<Rightarrow> ''null''
      | YearUndefined \<Rightarrow> ''undefined'')"

definition yearAdjOf :: "assumptions \<Rightarrow> borrower \<Rightarrow> real" where
  "yearAdjOf a borrower =
     (case optLookup (yearInSchoolAdjustmentsBps a) (yearKey (yearInSchool borrower)) of
        None \<Rightarrow> 0 | Some x \<Rightarrow> x)"

definition gradAdjOf :: "assumptions \<Rightarrow> borrower \<Rightarrow> real" where
  "gradAdjOf a borrower =
     (if isGraduateStudent borrower
      then (case graduateAdjustmentBps a of None \<Rightarrow> 0 | Some x \<Rightarrow> x) else 0)"

definition effectiveRiskFreeRate :: "assumptions \<Rightarrow> real \<Rightarrow> real" where
  "effectiveRiskFreeRate a riskFreeRate =
     (case baseRiskFreeRate a of None \<Rightarrow> riskFreeRate * 100 | Some x \<Rightarrow> x) / 100"

text \<open>
  The risk components of a loan on the pricing path, in the order the code computes them:
  \<open>totalRiskBps = userRiskBps + degreeAdj + schoolAdj + yearAdj + gradAdj + ficoAdj\<close>.
\<close>

definition breakdownOf :: "assumptions \<Rightarrow> borrower \<Rightarrow> string \<Rightarrow> riskCurve \<Rightarrow> string \<Rightarrow> riskBreakdown" where
  "breakdownOf a borrower tier curve sTier =
     \<lparr> baseRiskBps = curveRiskPremiumBps curve,
       degreeAdj = degreeAdjOf a borrower,
       schoolAdj = schoolAdjOf a sTier,
       yearAdj = yearAdjOf a borrower,
       gradAdj = gradAdjOf a borrower,
       ficoAdj = ficoAdjOf a borrower,
       totalRiskBps =
         jadd (jadd (jadd (jadd (jadd (userRiskBps a tier curve) (Fin (degreeAdjOf a borrower)))
           (Fin (schoolAdjOf a sTier))) (Fin (yearAdjOf a borrower))) (Fin (gradAdjOf a borrower)))
           (Fin (ficoAdjOf a borrower)),
       schoolTier = sTier \<rparr>"

definition cappedRiskBps :: "riskBreakdown \<Rightarrow> jsnum" where
  "cappedRiskBps rb = jmin (totalRiskBps rb) (Fin 500)"

definition discountRateOf :: "assumptions \<Rightarrow> real \<Rightarrow> riskBreakdown \<Rightarrow> jsnum" where
  "discountRateOf a riskFreeRate rb =
     jadd (Fin (effectiveRiskFreeRate a riskFreeRate)) (jdiv (cappedRiskBps rb) (Fin 10000))"

subsection \<open>The monthly cash-flow loop\<close>

text \<open>What the loop reads and does not change.\<close>

record simCtx =
  monthlyLoanRate :: real
  monthlyPayment :: jsnum
  simGraceYears :: real
  monthlySMM :: "jsnum list"
  monthlyPD :: "jsnum list"
  seasoningMonths :: real
  multiplier :: real
  recoveryPct :: real
  recoveryLag :: nat
  monthlyDiscountRate :: jsnum

text \<open>The variables of the loop.\<close>

record simState =
  sim_balance :: jsnum
  sim_npv :: jsnum
  sim_totalDefaults :: jsnum
  sim_totalRecoveries :: jsnum
  sim_walNumerator :: jsnum
  sim_totalCF :: jsnum
  sim_cashFlows :: "jsnum list"
  sim_recoveryQueue :: "jsnum list"
  sim_monthlySchedule :: "cashflowRow list"
  sim_cumulativeLossRunning :: jsnum

text \<open>Reading a number from an array: outside the array the read is \<open>undefined\<close>, which
  is \<open>NaN\<close> in arithmetic and falsy under \<open>||\<close>.\<close>

definition nthNum :: "jsnum list \<Rightarrow> nat \<Rightarrow> jsnum" where
  "nthNum xs j = (if j < length xs then xs ! j else NaN)"

text \<open>
  One round of \<open>for (let m = 1; m <= termMonths; m++)\<close>. (The second seasoning ramp of
  the source, \<open>effectiveSMM\<close>, is computed and never used.)
\<close>

definition cashFlowMonth :: "simCtx \<Rightarrow> simState \<Rightarrow> nat \<Rightarrow> simState" where
  "cashFlowMonth c s m =
     (if jle (sim_balance s) (Fin 0) then s\<lparr> sim_cashFlows := sim_cashFlows s @ [Fin 0] \<rparr>
      else
        (let bal = sim_balance s;
             intr = jmul bal (Fin (monthlyLoanRate c));
             scheduledPayment0 =
               (if real m \<le> numOr (simGraceYears c) 0 * 12 then intr else monthlyPayment c);
             scheduledPayment = jmin scheduledPayment0 (jadd bal intr);
             schedPrin = jmax (Fin 0) (jsub scheduledPayment intr);
             remainingAfterScheduled = jsub bal schedPrin;
             baseSMM = jor (nthNum (monthlySMM c) (m - 1)) (Fin 0);
             effectiveMultiplier =
               (if seasoningMonths c \<le> real m then multiplier c else multiplier c * (1 / 10));
             adjustedSMM = jmul baseSMM (Fin effectiveMultiplier);
             prepay = jmul remainingAfterScheduled adjustedSMM;
             totalPrincipalThisMonth = jadd schedPrin prepay;
             remaining0 = jsub remainingAfterScheduled prepay;
             defaultAmt = jmul remaining0 (nthNum (monthlyPD c) (m - 1));
             remaining = jsub remaining0 defaultAmt;
             recMonth = m + recoveryLag c;
             queued = (recMonth < length (sim_recoveryQueue s));
             lateRecovery = jmul defaultAmt (Fin (recoveryPct c));
             queue =
               (if queued
                then (sim_recoveryQueue s)
                       [recMonth := jadd (sim_recoveryQueue s ! recMonth) (jmul defaultAmt (Fin (recoveryPct c)))]
                else sim_recoveryQueue s);
             npv0 =
               (if queued then sim_npv s
                else jadd (sim_npv s)
                       (jdiv lateRecovery (jpow (jadd (Fin 1) (monthlyDiscountRate c)) (Fin (real recMonth)))));
             totalRecoveries0 =
               (if queued then sim_totalRecoveries s else jadd (sim_totalRecoveries s) lateRecovery);
             recoveryThisMonth = jor (nthNum queue m) (Fin 0);
             cf = jadd (jadd intr totalPrincipalThisMonth) recoveryThisMonth;
             discountedCF = jdiv cf (jpow (jadd (Fin 1) (monthlyDiscountRate c)) (Fin (real m)));
             cumLoss = jadd (sim_cumulativeLossRunning s) (jsub defaultAmt recoveryThisMonth)
         in \<lparr> sim_balance = remaining,
              sim_npv = jadd npv0 discountedCF,
              sim_totalDefaults = jadd (sim_totalDefaults s) defaultAmt,
              sim_totalRecoveries = jadd totalRecoveries0 recoveryThisMonth,
              sim_walNumerator = jadd (sim_walNumerator s) (jmul discountedCF (Fin (real m))),
              sim_totalCF = jadd (sim_totalCF s) discountedCF,
              sim_cashFlows = sim_cashFlows s @ [cf],
              sim_recoveryQueue = queue,
              sim_monthlySchedule = sim_monthlySchedule s @
                [\<lparr> cf_month = m, beginningBalance = bal, cf_interest = intr,
                    cf_scheduledPrincipal = schedPrin, prepayment = prepay,
                    defaultAmount = defaultAmt, cf_recovery = recoveryThisMonth,
                    endingBalance = remaining, cashFlow = cf,
                    discountedCashFlow = discountedCF, cumulativeLoss = cumLoss \<rparr>],
              sim_cumulativeLossRunning = cumLoss \<rparr>))"

text \<open>
  The cash-flow path of \<open>valueLoan\<close> from the loop to the returned object, for a current
  balance \<open>curBal\<close> and whole \<open>n = termMonths\<close>.
\<close>

definition cashflowValuation ::
  "loan \<Rightarrow> assumptions \<Rightarrow> string \<Rightarrow> riskBreakdown \<Rightarrow> jsnum \<Rightarrow> real \<Rightarrow> nat
     \<Rightarrow> jsnum list \<Rightarrow> jsnum list \<Rightarrow> real \<Rightarrow> nat \<Rightarrow> valuation" where
  "cashflowValuation loan a tier rb dRate curBal n pd smm recPct lag =
     (let c = \<lparr> monthlyLoanRate = loanRate loan / 12,
                monthlyPayment = computeMonthlyPayment curBal (loanRate loan) (real n),
                simGraceYears = graceYears loan,
                monthlySMM = smm,
                monthlyPD = pd,
                seasoningMonths = (case prepaySeasoningYears a of None \<Rightarrow> 5 / 2 | Some y \<Rightarrow> y) * 12,
                multiplier = (case prepaymentMultiplier a of None \<Rightarrow> 1 | Some x \<Rightarrow> x),
                recoveryPct = recPct,
                recoveryLag = lag,
                monthlyDiscountRate = jdiv dRate (Fin 12) \<rparr>;
          s = foldl (cashFlowMonth c)
                \<lparr> sim_balance = Fin curBal, sim_npv = Fin 0, sim_totalDefaults = Fin 0,
                  sim_totalRecoveries = Fin 0, sim_walNumerator = Fin 0, sim_totalCF = Fin 0,
                  sim_cashFlows = [Fin (- curBal)],
                  sim_recoveryQueue = replicate (n + lag + 1) (Fin 0),
                  sim_monthlySchedule = [], sim_cumulativeLossRunning = Fin 0 \<rparr>
                [1..<Suc n];
          ratio = (if 0 < curBal \<and> isFinite (sim_npv s)
                   then jsub (jdiv (sim_npv s) (Fin curBal)) (Fin 1) else Fin 0);
          loss0 = (if 0 < curBal \<and> isFinite (sim_totalDefaults s) \<and> isFinite (sim_totalRecoveries s)
                   then jdiv (jsub (sim_totalDefaults s) (sim_totalRecoveries s)) (Fin curBal)
                   else Fin 0);
          loss = (if isFinite loss0 then jmax (Fin 0) loss0 else Fin 0);
          life = (if jgt (sim_totalCF s) (Fin 0) \<and> isFinite (sim_walNumerator s)
                  then jdiv (jdiv (sim_walNumerator s) (sim_totalCF s)) (Fin 12) else Fin 0);
          irrPrincipal = (if 0 < curBal then curBal else originalPrincipal loan);
          irr0 = calculateIRR (sim_cashFlows s) (Fin irrPrincipal);
          safeIrr = (if isFinite irr0 then irr0 else Fin 0)
      in \<lparr> v_loanId = loanId loan, riskTier = tier, discountRate = Some dRate,
           npv = sim_npv s, npvRatio = Some ratio, expectedLoss = loss,
           expectedLossPct = Some loss, wal = life, irr = safeIrr,
           riskBreakdown = Some rb, cashflowSchedule = sim_monthlySchedule s \<rparr>)"

text \<open>
  The pricing path: risk tier, curve, school tier (which can throw), the discount rate,
  the two monthly vectors (a curve object without \<open>defaultCurve\<close>, \<open>prepaymentCurve\<close>
  or \<open>recovery\<close> throws a \<open>TypeError\<close>), and the recovery queue
  \<open>new Array(termMonths + recoveryLag + 1)\<close>, which throws a \<open>RangeError\<close> unless the
  length is a whole number.
\<close>

definition priceLoan ::
  "env \<Rightarrow> (string \<rightharpoonup> riskCurve) \<Rightarrow> loan \<Rightarrow> borrower \<Rightarrow> assumptions \<Rightarrow> real \<Rightarrow> real \<Rightarrow> real
     \<Rightarrow> error + valuation" where
  "priceLoan e curves loan borrower a riskFreeRate curBal tm =
     (let tier = deriveRiskTier borrower a;
          curve = curveFor curves tier
      in case getSchoolTier (SCHOOLTIERS e)
                (case school borrower of None \<Rightarrow> ''Unknown'' | Some nm \<Rightarrow> nm) (opeid borrower) a of
           Inl err \<Rightarrow> Inl err
         | Inr sTier \<Rightarrow>
             (let rb = breakdownOf a borrower tier curve sTier;
                  dRate = discountRateOf a riskFreeRate rb
              in case cumulativeDefaultPct curve of
                   None \<Rightarrow> Inl TypeError
                 | Some cum \<Rightarrow>
                     (case valuesPct curve of
                        None \<Rightarrow> Inl TypeError
                      | Some cpr \<Rightarrow>
                          (case recovery curve of
                             None \<Rightarrow> Inl TypeError
                           | Some rc \<Rightarrow>
                               (case recoveryLagMonths rc of
                                  None \<Rightarrow> Inl RangeError
                                | Some lag \<Rightarrow>
                                    if \<not> isInt tm then Inl RangeError
                                    else Inr (cashflowValuation loan a tier rb dRate curBal (nat \<lfloor>tm\<rfloor>)
                                           (interpolateCumulativeDefaultsToMonthlyPD cum (nat \<lfloor>tm\<rfloor>))
                                           (interpolateAnnualCPRToMonthlySMM cpr (nat \<lfloor>tm\<rfloor>))
                                           (userRecoveryPct a tier curve) lag))))))"

text \<open>
  \<open>valueLoan({ loan, borrower, riskFreeRate = 0.04, profile })\<close>. A missing profile is
  the system profile. (The \<open>if (rate <= 0)\<close> after the validation cannot be reached.)
\<close>

definition valueLoan ::
  "env \<Rightarrow> loan \<Rightarrow> borrower \<Rightarrow> real option \<Rightarrow> assumptions option \<Rightarrow> error + valuation" where
  "valueLoan e loan borrower riskFreeRateArg profile =
     (let riskFreeRate = (case riskFreeRateArg of None \<Rightarrow> 4 / 100 | Some r \<Rightarrow> r);
          a = (case profile of None \<Rightarrow> SYSTEM_PROFILE e | Some pa \<Rightarrow> pa)
      in if originalPrincipal loan \<le> 0 \<or> loanRate loan \<le> 0 \<or> originalTermMonths loan \<le> 0
         then Inr (unvalued loan)
         else
           (case VALUATION_CURVES e of
              None \<Rightarrow> Inl CurvesNotLoaded
            | Some curves \<Rightarrow>
                (case buildAmortSchedule (feesOf e loan) loan of
                   Inl err \<Rightarrow> Inl err
                 | Inr amort \<Rightarrow>
                     (let curBal = currentBalance (today e) loan amort;
                          tm = termMonths (today e) loan amort
                      in if curBal \<le> 0 \<or> tm \<le> 0
                         then Inr (paidOff loan borrower a riskFreeRate)
                         else priceLoan e curves loan borrower a riskFreeRate curBal tm))))"

section \<open>OwnershipLedger and PortfolioAggregator\<close>

text \<open>\<open>getUserOwnershipPct\<close> (ownership engine): the lots of the user, names compared
  trimmed and in lower case.\<close>

definition getUserOwnershipPct :: "loan \<Rightarrow> string \<Rightarrow> real" where
  "getUserOwnershipPct loan usr =
     (let normalizedUser = toLowerCase (trim usr)
      in foldl (\<lambda>total l. total + numOr (pct l) 0) 0
           (filter (\<lambda>l. toLowerCase (trim (user l)) = normalizedUser) (ownershipLots loan)))"

definition getBorrowerById :: "borrower list \<Rightarrow> string \<Rightarrow> borrower option" where
  "getBorrowerById bs bid = find (\<lambda>b. borrowerId b = bid) bs"

text \<open>The empty object \<open>{}\<close> as a borrower: every field absent.\<close>

definition emptyBorrower :: borrower where
  "emptyBorrower =
     \<lparr> borrowerId = [], borrowerFico = 0, cosignerFico = 0, yearInSchool = YearUndefined,
       isGraduateStudent = False, school = None, opeid = None, degreeType = [] \<rparr>"

definition getEffectiveBorrower :: "env \<Rightarrow> loan \<Rightarrow> borrower \<Rightarrow> borrower" where
  "getEffectiveBorrower e loan systemBorrower =
     (case VALUATION_OVERRIDES e (loanId loan) of
        None \<Rightarrow> systemBorrower
      | Some override \<Rightarrow> override systemBorrower)"

record valuedLoan =
  vl_loan :: loan
  effectiveBorrower :: borrower
  vl_valuation :: valuation
  vl_amort :: "amortRow list"
  vl_currentBalance :: jsnum
  userPct :: real
  marketPct :: real
  ownershipPct :: real
  displayPrincipal :: jsnum
  displayNPV :: jsnum
  displayExpLoss :: jsnum
  displayExpLossPct :: "jsnum option"
  displayWAL :: jsnum
  displayIRR :: jsnum

text \<open>The running sums of \<open>computePortfolioValuation\<close>.\<close>

record runningSums =
  sum_totalPrincipal :: jsnum
  sum_totalNPV :: jsnum
  sum_totalExpectedLossWeighted :: jsnum
  sum_totalWALWeighted :: jsnum
  sum_totalIRRWeighted :: jsnum
  sum_totalPrincipalForWeights :: jsnum

record portfolioValuation =
  valuedLoans :: "valuedLoan list"
  totalPrincipal :: jsnum
  totalNPV :: jsnum
  totalNPVPercent :: jsnum
  totalExpLoss :: jsnum
  totalWAL :: jsnum
  totalIRR :: jsnum

definition ownedBy :: "string \<Rightarrow> string \<Rightarrow> loan \<Rightarrow> bool" where
  "ownedBy currentUser ownershipMode loan =
     (let uPct = getUserOwnershipPct loan currentUser;
          mPct = getUserOwnershipPct loan ''Market''
      in if ownershipMode = ''portfolio'' then 0 < uPct
         else if ownershipMode = ''market'' then 0 < mPct
         else if ownershipMode = ''all'' then 0 < uPct \<or> 0 < mPct
         else False)"

text \<open>An absent property used in arithmetic is \<open>NaN\<close>.\<close>

definition optNum :: "jsnum option \<Rightarrow> jsnum" where
  "optNum v = (case v of None \<Rightarrow> NaN | Some x \<Rightarrow> x)"

text \<open>
  The body of the \<open>map\<close> callback for one loan: the loan's rate is replaced by
  \<open>0.08\<close> when it is not positive, the loan is valued, its schedule is built again, and
  the prorated figures are formed. Whatever \<open>valueLoan\<close> or \<open>buildAmortSchedule\<close>
  throws leaves the callback.
\<close>

definition valueOwnedLoan ::
  "env \<Rightarrow> string \<Rightarrow> string \<Rightarrow> assumptions option \<Rightarrow> real option \<Rightarrow> loan \<Rightarrow> error + valuedLoan" where
  "valueOwnedLoan e currentUser ownershipMode activeProfile riskFreeRate loan0 =
     (let systemBorrower =
            (case getBorrowerById (BORROWERS e) (loanBorrowerId loan0) of
               None \<Rightarrow> emptyBorrower | Some b \<Rightarrow> b);
          eb = getEffectiveBorrower e loan0 systemBorrower;
          loan = loan0\<lparr> nominalRate := (if nominalRate loan0 \<le> 0 then 8 / 100 else nominalRate loan0) \<rparr>
      in case valueLoan e loan eb riskFreeRate activeProfile of
           Inl err \<Rightarrow> Inl err
         | Inr v \<Rightarrow>
             (case buildAmortSchedule (feesOf e loan) loan of
                Inl err \<Rightarrow> Inl err
              | Inr rows \<Rightarrow>
                  (let curBal = (case currentIndex (today e) rows of
                                   None \<Rightarrow> Fin (principal loan)
                                 | Some j \<Rightarrow> balance (rows ! j));
                       uPct = getUserOwnershipPct loan currentUser;
                       mPct = getUserOwnershipPct loan ''Market'';
                       oPct = (if ownershipMode = ''portfolio'' then uPct
                               else if ownershipMode = ''market'' then mPct
                               else if ownershipMode = ''all'' then (if 0 < uPct then uPct else mPct)
                               else 1)
                   in Inr \<lparr> vl_loan = loan, effectiveBorrower = eb, vl_valuation = v,
                            vl_amort = rows, vl_currentBalance = curBal,
                            userPct = uPct, marketPct = mPct, ownershipPct = oPct,
                            displayPrincipal = Fin (principal loan * oPct),
                            displayNPV = jmul (npv v) (Fin oPct),
                            displayExpLoss = jmul (expectedLoss v) (Fin oPct),
                            displayExpLossPct = expectedLossPct v,
                            displayWAL = wal v,
                            displayIRR = irr v \<rparr>)))"

definition accumulate :: "runningSums \<Rightarrow> valuedLoan \<Rightarrow> runningSums" where
  "accumulate t vl =
     \<lparr> sum_totalPrincipal = jadd (sum_totalPrincipal t) (displayPrincipal vl),
       sum_totalNPV = jadd (sum_totalNPV t) (displayNPV vl),
       sum_totalExpectedLossWeighted =
         jadd (sum_totalExpectedLossWeighted t)
           (jmul (optNum (expectedLossPct (vl_valuation vl))) (displayPrincipal vl)),
       sum_totalWALWeighted =
         jadd (sum_totalWALWeighted t) (jmul (wal (vl_valuation vl)) (displayPrincipal vl)),
       sum_totalIRRWeighted =
         jadd (sum_totalIRRWeighted t) (jmul (irr (vl_valuation vl)) (displayPrincipal vl)),
       sum_totalPrincipalForWeights =
         jadd (sum_totalPrincipalForWeights t) (displayPrincipal vl) \<rparr>"

text \<open>The \<open>map\<close> over the filtered loans, in order; the first throw ends it.\<close>

fun valueAll ::
  "env \<Rightarrow> string \<Rightarrow> string \<Rightarrow> assumptions option \<Rightarrow> real option \<Rightarrow> loan list
     \<Rightarrow> runningSums \<Rightarrow> valuedLoan list \<Rightarrow> error + (runningSums \<times> valuedLoan list)" where
  "valueAll e currentUser ownershipMode activeProfile riskFreeRate [] t vls = Inr (t, vls)"
| "valueAll e currentUser ownershipMode activeProfile riskFreeRate (loan # rest) t vls =
     (case valueOwnedLoan e currentUser ownershipMode activeProfile riskFreeRate loan of
        Inl err \<Rightarrow> Inl err
      | Inr vl \<Rightarrow>
          valueAll e currentUser ownershipMode activeProfile riskFreeRate rest
            (accumulate t vl) (vls @ [vl]))"

definition computePortfolioValuation ::
  "env \<Rightarrow> loan list \<Rightarrow> string \<Rightarrow> string \<Rightarrow> assumptions option \<Rightarrow> real option
     \<Rightarrow> error + portfolioValuation" where
  "computePortfolioValuation e loans currentUser ownershipMode activeProfile riskFreeRate =
     (let filteredLoans = filter (ownedBy currentUser ownershipMode) loans
      in case valueAll e currentUser ownershipMode activeProfile riskFreeRate filteredLoans
                \<lparr> sum_totalPrincipal = Fin 0, sum_totalNPV = Fin 0,
                  sum_totalExpectedLossWeighted = Fin 0, sum_totalWALWeighted = Fin 0,
                  sum_totalIRRWeighted = Fin 0, sum_totalPrincipalForWeights = Fin 0 \<rparr> [] of
           Inl err \<Rightarrow> Inl err
         | Inr (t, vls) \<Rightarrow>
             Inr \<lparr> valuedLoans = vls,
                   totalPrincipal = sum_totalPrincipal t,
                   totalNPV = sum_totalNPV t,
                   totalNPVPercent =
                     (if jgt (sum_totalPrincipal t) (Fin 0)
                      then jmul (jsub (jdiv (sum_totalNPV t) (sum_totalPrincipal t)) (Fin 1)) (Fin 100)
                      else Fin 0),
                   totalExpLoss =
                     (if jgt (sum_totalPrincipalForWeights t) (Fin 0)
                      then jmul (jdiv (sum_totalExpectedLossWeighted t) (sum_totalPrincipalForWeights t)) (Fin 100)
                      else Fin 0),
                   totalWAL =
                     (if jgt (sum_totalPrincipalForWeights t) (Fin 0)
                      then jdiv (sum_totalWALWeighted t) (sum_totalPrincipalForWeights t)
                      else Fin 0),
                   totalIRR =
                     (if jgt (sum_totalPrincipalForWeights t) (Fin 0)
                      then jdiv (sum_totalIRRWeighted t) (sum_totalPrincipalForWeights t)
                      else Fin 0) \<rparr>)"

section \<open>Configuration defaults and sample data\<close>

text \<open>
  The assumptions of \<open>SYSTEM_PROFILE\<close> as the module sets them when the page supplies
  no \<open>SYSTEM_RISK_CONFIG\<close>. (The object literal names \<open>recoveryRate\<close> twice, and the
  second, per-tier entry stands; its seasoning entry is named \<open>prepaySeasoning\<close>, so
  \<open>prepaySeasoningYears\<close> is absent.)
\<close>

definition systemAssumptions :: assumptions where
  "systemAssumptions =
     \<lparr> riskPremiumBps =
         Some [''LOW'' \<mapsto> 250, ''MEDIUM'' \<mapsto> 350, ''HIGH'' \<mapsto> 550, ''VERY_HIGH'' \<mapsto> 750],
       recoveryRate =
         Some [''LOW'' \<mapsto> 30, ''MEDIUM'' \<mapsto> 22, ''HIGH'' \<mapsto> 15, ''VERY_HIGH'' \<mapsto> 10],
       prepaymentMultiplier = Some 1,
       ficoBorrowerAdjustment = Some 50,
       ficoCosignerAdjustment = Some 25,
       degreeAdjustmentsBps = None,
       schoolAdjustmentsBps = None,
       yearInSchoolAdjustmentsBps = None,
       graduateAdjustmentBps = None,
       baseRiskFreeRate = Some (425 / 100),
       prepaySeasoningYears = None,
       graduationRateThreshold = Some 75,
       earningsThreshold = Some 70000 \<rparr>"

text \<open>
  The fee terms of a loan whose user is not in the user table and that has no waiver and
  no fee configuration of its own: role \<open>"investor"\<close>, setup fee \<open>150\<close>, \<open>25\<close> bps.
\<close>

definition defaultFees :: feeTerms where
  "defaultFees =
     \<lparr> roleIsLender = False, waiveSetup = False, waiveMonthly = False,
       SETUP_FEE_AMOUNT = 150, MONTHLY_SERVICING_RATE = 25 / 10000 \<rparr>"

text \<open>
  A sample loan: \<open>1000\<close> at \<open>12%\<close> over one year from January 2024 (month
  \<open>2024 * 12 + 0\<close>), no grace period, no events, wholly owned by one user.
\<close>

definition sampleLoan :: loan where
  "sampleLoan =
     \<lparr> loanId = ''L1'', loanBorrowerId = ''B1'', principal = 1000, nominalRate = 12 / 100,
       termYears = 1, graceYears = 0, loanStartDate = Some 24288, purchaseDate = None,
       events = [], ownershipLots = [\<lparr> user = ''jeff'', pct = 1 \<rparr>] \<rparr>"

text \<open>A module state with nothing loaded, on the first month of the sample loan.\<close>

definition bareEnv :: env where
  "bareEnv =
     \<lparr> VALUATION_CURVES = None, SCHOOLTIERS = None, SYSTEM_PROFILE = systemAssumptions,
       feesOf = (\<lambda>loan. defaultFees), today = 24288, BORROWERS = [],
       VALUATION_OVERRIDES = Map.empty \<rparr>"

text \<open>
  A curve table with one tier and a school-tier table with only the default record, and a
  module state in which both are loaded.
\<close>

definition mediumCurve :: riskCurve where
  "mediumCurve =
     \<lparr> curveRiskPremiumBps = Some 350, cumulativeDefaultPct = Some [2, 5, 8],
       valuesPct = Some [3, 5, 8],
       recovery = Some \<lparr> grossRecoveryPct = Some 22, recoveryLagMonths = Some 12 \<rparr> \<rparr>"

definition loadedEnv :: env where
  "loadedEnv =
     bareEnv\<lparr> VALUATION_CURVES := Some [''MEDIUM'' \<mapsto> mediumCurve],
              SCHOOLTIERS := Some [(''DEFAULT'', \<lparr> grad_rate = Some 10, median_earnings_10yr = None \<rparr>)] \<rparr>"

text \<open>
  Variations of the sample loan: a two-month deferral from the first month with a
  prepayment of \<open>5000\<close> in that month; a principal of \<open>300\<close> over half a year; a
  grace period of half a year before a term of half a year; a default with no recovery in
  the twelfth month (December 2024).
\<close>

definition deferredPayoffLoan :: loan where
  "deferredPayoffLoan =
     sampleLoan\<lparr> events := [DeferralEvent (Some 24288) 2, PrepaymentEvent (Some 24288) 5000] \<rparr>"



definition defaultedLoan :: loan where
  "defaultedLoan = sampleLoan\<lparr> events := [DefaultEvent (Some 24299) 0] \<rparr>"

text \<open>
  The loaded module state with a curve premium of \<open>400\<close> bps for the tier (the system
  profile has \<open>350\<close>) and a default school record that reaches both thresholds.
\<close>

definition tierOneEnv :: env where
  "tierOneEnv =
     loadedEnv\<lparr> VALUATION_CURVES := Some [''MEDIUM'' \<mapsto> mediumCurve\<lparr> curveRiskPremiumBps := Some 400 \<rparr>],
                SCHOOLTIERS := Some [(''DEFAULT'', \<lparr> grad_rate = Some 80,
                                                     median_earnings_10yr = Some 80000 \<rparr>)] \<rparr>"

text \<open>
  A borrower with a FICO score of \<open>740\<close> and no cosigner, in the second year at a
  school that is not in the school-tier table.
\<close>

definition sampleBorrower :: borrower where
  "sampleBorrower =
     \<lparr> borrowerId = ''B1'', borrowerFico = 740, cosignerFico = 0, yearInSchool = YearNum 2,
       isGraduateStudent = False, school = Some ''State College'', opeid = None,
       degreeType = ''STEM'' \<rparr>"

section \<open>Predicates of the specification\<close>

text \<open>A number in the interval \<open>[0, 1)\<close>, and an annual percentage in \<open>[0, 100)\<close>.\<close>

definition inUnit :: "jsnum \<Rightarrow> bool" where
  "inUnit x = (case x of Fin r \<Rightarrow> 0 \<le> r \<and> r < 1 | _ \<Rightarrow> False)"

definition validPct :: "real \<Rightarrow> bool" where
  "validPct annualPct = (0 \<le> annualPct \<and> annualPct < 100)"


section \<open>Auxiliary notions for the proofs\<close>

text \<open>The real behind a finite number.\<close>

definition finOf :: "jsnum \<Rightarrow> real" where
  "finOf x = (case x of Fin r \<Rightarrow> r | _ \<Rightarrow> 0)"

text \<open>
  A month without events, on real numbers: the scheduled principal and the new balance of
  a normal month with level payment \<open>a\<close>, monthly rate \<open>r\<close> and opening balance \<open>b\<close>.
\<close>

definition stepSP :: "real \<Rightarrow> real \<Rightarrow> bool \<Rightarrow> real \<Rightarrow> real" where
  "stepSP a r inGrace b = (if inGrace then 0 else min (a - b * r) b)"

definition stepBal :: "real \<Rightarrow> real \<Rightarrow> bool \<Rightarrow> real \<Rightarrow> real" where
  "stepBal a r inGrace b =
     (if inGrace then b + b * r
      else (let b1 = max 0 (b - min (a - b * r) b) in if b1 \<le> 1 / 100 then 0 else b1))"

definition quietBal :: "loan \<Rightarrow> month \<Rightarrow> amortState \<Rightarrow> real" where
  "quietBal loan start s =
     stepBal (finOf (originalMonthlyPayment loan)) (monthlyRate loan)
       (real_of_int (st_calendarDate s - start) < graceMonths loan) (finOf (st_balance s))"

definition quietSP :: "loan \<Rightarrow> month \<Rightarrow> amortState \<Rightarrow> real" where
  "quietSP loan start s =
     stepSP (finOf (originalMonthlyPayment loan)) (monthlyRate loan)
       (real_of_int (st_calendarDate s - start) < graceMonths loan) (finOf (st_balance s))"

section \<open>Facts about numbers\<close>

declare jpow.simps [simp del]

declare toFixed2.simps [simp del]

lemma finOf_Fin [simp]: "finOf (Fin r) = r"
  by (simp add: finOf_def)

lemma isFinite_eq: "isFinite x \<longleftrightarrow> x = Fin (finOf x)"
  by (cases x) simp_all

lemma jpow_nat: "jpow (Fin x) (Fin (real n)) = Fin (x ^ n)"
  by (cases "n = 0") (auto simp: jpow.simps isInt_def)

lemma jpow_one: "jpow (Fin x) (Fin 1) = Fin x"
  using jpow_nat [of x 1] by simp

lemma jpow_numeral: "jpow (Fin x) (Fin (numeral k)) = Fin (x ^ numeral k)"
  using jpow_nat [of x "numeral k"] by simp

lemma jpow_neg_nat: "x \<noteq> 0 \<Longrightarrow> jpow (Fin x) (Fin (- real n)) = Fin (1 / x ^ n)"
  by (cases "n = 0") (auto simp: jpow.simps isInt_def floor_minus power_int_minus field_simps)

section \<open>Properties of the IRR solver\<close>

lemma irrLoop_bracket:
  assumes "0 \<le> a" "a \<le> c" "c \<le> b" "b \<le> 1"
  shows "(\<exists>x. irrLoop k cfs p (Fin a) (Fin b) (Fin c) = Inl (Fin (x * 12 * 100)) \<and> 0 \<le> x \<and> x \<le> 1)
       \<or> (\<exists>x. irrLoop k cfs p (Fin a) (Fin b) (Fin c) = Inr (Fin x) \<and> 0 \<le> x \<and> x \<le> 1)"
  using assms
proof (induction k arbitrary: a b c)
  case 0
  then show ?case by simp
next
  case (Suc k)
  show ?case
  proof (cases "jlt (jabs (irrNpv cfs p (Fin c))) PRECISION")
    case True
    with Suc.prems show ?thesis by (auto simp: Let_def)
  next
    case conv: False
    show ?thesis
    proof (cases "jgt (irrNpv cfs p (Fin c)) (Fin 0)")
      case True
      have "0 \<le> c" "c \<le> (c + b) / 2" "(c + b) / 2 \<le> b" "b \<le> 1"
        using Suc.prems by auto
      from Suc.IH [OF this] conv True show ?thesis by (simp add: Let_def)
    next
      case False
      have "0 \<le> a" "a \<le> (a + c) / 2" "(a + c) / 2 \<le> c" "c \<le> 1"
        using Suc.prems by auto
      from Suc.IH [OF this] conv False show ?thesis by (simp add: Let_def)
    qed
  qed
qed

lemma calculateIRR_total:
  "\<exists>x. calculateIRR cfs p = Fin x \<and> 0 \<le> x \<and> x \<le> 1200"
proof -
  have "(0::real) \<le> 0" "(0::real) \<le> 8 / 1000" "(8 / 1000 :: real) \<le> 1" "(1::real) \<le> 1"
    by simp_all
  from irrLoop_bracket [OF this, of MAX_ITER cfs p]
  show ?thesis
  proof
    assume "\<exists>x. irrLoop MAX_ITER cfs p (Fin 0) (Fin 1) (Fin (8 / 1000)) = Inl (Fin (x * 12 * 100))
      \<and> 0 \<le> x \<and> x \<le> 1"
    then obtain x where "irrLoop MAX_ITER cfs p (Fin 0) (Fin 1) (Fin (8 / 1000)) = Inl (Fin (x * 12 * 100))"
      "0 \<le> x" "x \<le> 1" by blast
    then show ?thesis by (simp add: calculateIRR_def)
  next
    assume "\<exists>x. irrLoop MAX_ITER cfs p (Fin 0) (Fin 1) (Fin (8 / 1000)) = Inr (Fin x) \<and> 0 \<le> x \<and> x \<le> 1"
    then obtain x where "irrLoop MAX_ITER cfs p (Fin 0) (Fin 1) (Fin (8 / 1000)) = Inr (Fin x)"
      "0 \<le> x" "x \<le> 1" by blast
    then show ?thesis by (simp add: calculateIRR_def jge_def)
  qed
qed

lemma irrNpv_one:
  "irrNpv [a, b] p r = jadd (jneg p) (jdiv b (jpow (jadd (Fin 1) r) (Fin 1)))"
  by (simp add: irrNpv_def)

text \<open>
  A vector with no inflow never converges: the residual stays at \<open>-1\<close>, every step
  lowers \<open>max\<close> to the midpoint, and the midpoint is halved.
\<close>

lemma irrLoop_noflow:
  "0 \<le> c \<Longrightarrow>
   irrLoop k [Fin (- 1), Fin 0] (Fin 1) (Fin 0) (Fin b) (Fin c) = Inr (Fin (c / 2 ^ k))"
proof (induction k arbitrary: b c)
  case 0
  then show ?case by simp
next
  case (Suc k)
  have npv: "irrNpv [Fin (- 1), Fin 0] (Fin 1) (Fin c) = Fin (- 1)"
    using Suc.prems by (simp add: irrNpv_one jpow_one)
  have "0 \<le> c / 2" using Suc.prems by simp
  from Suc.IH [OF this, of c] show ?case
    by (simp add: npv PRECISION_def jgt_def)
qed

text \<open>
  Claim C10. Whenever \<open>calculateIRR\<close> returns a finite number, the number lies between
  \<open>0\<close> and \<open>1200\<close> (annualised percent): the bracket starts at the monthly rates
  \<open>0\<close> and \<open>1\<close> and only narrows, so no negative yield is ever returned.
\<close>

theorem calculateIRR_range:
  "calculateIRR cfs p = Fin x \<Longrightarrow> 0 \<le> x \<and> x \<le> 1200"
  using calculateIRR_total [of cfs p] by auto

theorem calculateIRR_range_witness:
  "calculateIRR [Fin (- 100), Fin (1008 / 10)] (Fin 100) = Fin (48 / 5)
   \<and> (0::real) \<le> 48 / 5 \<and> (48 / 5 :: real) \<le> 1200"
proof -
  have run: "calculateIRR [Fin (- 100), Fin (1008 / 10)] (Fin 100) = Fin (48 / 5)"
    by (simp add: calculateIRR_def MAX_ITER_def irrNpv_one PRECISION_def jpow_one
        irrLoop.simps(2) [of 99, simplified])
  from calculateIRR_range [OF run] run show ?thesis by simp
qed

text \<open>
  Claim C2, as stated: when the \<open>100\<close> iterations complete without the residual falling
  below \<open>1e-6\<close>, \<open>calculateIRR\<close> returns \<open>NaN\<close>. It does not: for a unit outlay
  followed by a single zero inflow the loop runs out, and the result is the last midpoint,
  annualised.
\<close>

theorem calculateIRR_unconverged_counterexample:
  "irrLoop MAX_ITER [Fin (- 1), Fin 0] (Fin 1) (Fin 0) (Fin 1) (Fin (8 / 1000))
     = Inr (Fin (8 / 1000 / 2 ^ 100))
   \<and> calculateIRR [Fin (- 1), Fin 0] (Fin 1) = Fin (8 / 1000 / 2 ^ 100 * 12 * 100)"
  by (simp add: calculateIRR_def irrLoop_noflow MAX_ITER_def jge_def)

text \<open>
  Claim C2, amended: when the \<open>100\<close> iterations complete without the residual falling
  below \<open>1e-6\<close>, \<open>calculateIRR\<close> returns the last midpoint of the bracket, annualised
  (\<open>irr * 12 * 100\<close>), a number between \<open>0\<close> and \<open>1200\<close>; it is never \<open>NaN\<close>.
\<close>

theorem calculateIRR_unconverged:
  assumes "irrLoop MAX_ITER cfs p (Fin 0) (Fin 1) (Fin (8 / 1000)) = Inr mid"
  shows "\<exists>x. mid = Fin x \<and> 0 \<le> x \<and> x \<le> 1 \<and> calculateIRR cfs p = Fin (x * 12 * 100)"
proof -
  have "(0::real) \<le> 0" "(0::real) \<le> 8 / 1000" "(8 / 1000 :: real) \<le> 1" "(1::real) \<le> 1"
    by simp_all
  from irrLoop_bracket [OF this, of MAX_ITER cfs p] assms
  obtain x where x: "mid = Fin x" "0 \<le> x" "x \<le> 1" by auto
  with assms have "calculateIRR cfs p = Fin (x * 12 * 100)"
    by (simp add: calculateIRR_def jge_def)
  with x show ?thesis by blast
qed

theorem calculateIRR_unconverged_witness:
  "\<exists>x. Fin (8 / 1000 / 2 ^ 100) = Fin x \<and> 0 \<le> x \<and> x \<le> 1
     \<and> calculateIRR [Fin (- 1), Fin 0] (Fin 1) = Fin (x * 12 * 100)"
proof -
  have run: "irrLoop MAX_ITER [Fin (- 1), Fin 0] (Fin 1) (Fin 0) (Fin 1) (Fin (8 / 1000))
     = Inr (Fin (8 / 1000 / 2 ^ 100))"
    by (simp add: irrLoop_noflow MAX_ITER_def)
  from calculateIRR_unconverged [OF run] show ?thesis .
qed

section \<open>Properties of the risk classifier\<close>

lemma tableEntry_own: "map_of tbl key = Some d \<Longrightarrow> tableEntry tbl key = Some d"
  by (simp add: tableEntry_def)

lemma tableEntry_none:
  "map_of tbl key = None \<Longrightarrow> key \<notin> set inheritedMembers \<Longrightarrow> tableEntry tbl key = None"
  by (simp add: tableEntry_def)

text \<open>
  An OPEID that names an inherited member and is no entry of the table never reaches the
  \<open>"DEFAULT"\<close> record: the tier is that of a record with no data.
\<close>

lemma getSchoolTier_inherited:
  assumes "map_of tbl (trim oid) = None" and "trim oid \<in> set inheritedMembers"
    and "oid \<noteq> []" and "tbl \<noteq> []"
  shows "getSchoolTier (Some tbl) schoolName (Some oid) a
     = Inr (computeSchoolTier \<lparr> grad_rate = None, median_earnings_10yr = None \<rparr> a)"
  using assms by (simp add: getSchoolTier_def tableEntry_def Let_def)

text \<open>
  Claim C8, as stated: an OPEID with no entry in the loaded table gives \<open>"Tier 3"\<close>.
  It does not when the table's \<open>"DEFAULT"\<close> record reaches a threshold: with a default
  graduation rate of \<open>60\<close> (80% of the system threshold \<open>75\<close>) the result is
  \<open>"Tier 2"\<close>.
\<close>

theorem getSchoolTier_unmapped_counterexample:
  "getSchoolTier
     (Some [(''DEFAULT'', \<lparr> grad_rate = Some 60, median_earnings_10yr = Some 50000 \<rparr>)])
     ''Some College'' (Some ''001234'') systemAssumptions = Inr ''Tier 2''"
  by (simp add: getSchoolTier_def tableEntry_def inheritedMembers_def computeSchoolTier_def
      systemAssumptions_def trim_def isWhite_def numOf_def jge_def)

text \<open>
  Claim C8, amended: for every school name and every OPEID that is no entry of the loaded
  table and does not name an inherited member, when the table has a \<open>"DEFAULT"\<close> record,
  \<open>getSchoolTier\<close> returns the tier that \<open>computeSchoolTier\<close> gives that record under
  the assumptions in force.
\<close>

theorem getSchoolTier_unmapped:
  assumes "map_of tbl (trim oid) = None" and "trim oid \<notin> set inheritedMembers"
    and "map_of tbl ''DEFAULT'' = Some d"
  shows "getSchoolTier (Some tbl) schoolName (Some oid) a = Inr (computeSchoolTier d a)"
proof -
  from assms(3) have "tbl \<noteq> []" by auto
  then show ?thesis
    by (simp add: getSchoolTier_def Let_def tableEntry_none [OF assms(1,2)]
        tableEntry_own [OF assms(3)])
qed

theorem getSchoolTier_unmapped_witness:
  "getSchoolTier
     (Some [(''DEFAULT'', \<lparr> grad_rate = Some 10, median_earnings_10yr = None \<rparr>)])
     ''Some College'' (Some '' 001234 '') systemAssumptions = Inr ''Tier 3''"
proof -
  have "map_of [(''DEFAULT'', \<lparr> grad_rate = Some 10, median_earnings_10yr = None \<rparr>)]
          (trim '' 001234 '') = None"
    "trim '' 001234 '' \<notin> set inheritedMembers"
    "map_of [(''DEFAULT'', \<lparr> grad_rate = Some 10, median_earnings_10yr = None \<rparr>)] ''DEFAULT''
       = Some \<lparr> grad_rate = Some 10, median_earnings_10yr = None \<rparr>"
    by (simp_all add: trim_def isWhite_def inheritedMembers_def)
  from getSchoolTier_unmapped [OF this, of "''Some College''" systemAssumptions]
  show ?thesis
    by (simp add: computeSchoolTier_def systemAssumptions_def numOf_def jge_def)
qed

section \<open>Properties of the curve interpolators\<close>

lemma length_padLast: "length (padLast n xs) = max n (length xs)"
proof (induction n xs rule: padLast.induct)
  case (1 maxMonths monthly)
  show ?case
  proof (cases "length monthly < maxMonths")
    case True
    with 1 show ?thesis by (subst padLast.simps) simp
  next
    case False
    then show ?thesis by (subst padLast.simps) simp
  qed
qed

lemma length_fillYear: "length xs \<le> n \<Longrightarrow> length (fillYear k n v xs) \<le> n"
  by (induction k arbitrary: xs) auto

lemma length_yearsLoop: "length xs \<le> n \<Longrightarrow> length (yearsLoop ys n xs) \<le> n"
  by (induction ys arbitrary: xs) (auto simp: length_fillYear)

lemma not_isInt_twelfth: "\<not> isInt (1 / 12)"
proof -
  have "\<lfloor>1 / 12 :: real\<rfloor> = 0" by simp
  then show ?thesis by (simp add: isInt_def)
qed

lemma monthlyHazard_eq:
  "p < 100 \<Longrightarrow> monthlyHazard p = Fin (1 - (1 - p / 100) powr (1 / 12))"
  by (simp add: monthlyHazard_def jsub_def jpow.simps not_isInt_twelfth)

lemma monthlyHazard_unit: "validPct p \<Longrightarrow> inUnit (monthlyHazard p)"
proof -
  assume "validPct p"
  then have p: "0 \<le> p" "p < 100" by (simp_all add: validPct_def)
  let ?b = "1 - p / 100"
  have b: "0 < ?b" "?b \<le> 1" using p by simp_all
  have "0 < ?b powr (1 / 12)" using b by simp
  moreover have "?b powr (1 / 12) \<le> 1" using b by (simp add: powr_le1)
  ultimately show ?thesis using p by (simp add: monthlyHazard_eq inUnit_def)
qed

lemma fillYear_unit:
  "list_all inUnit xs \<Longrightarrow> inUnit v \<Longrightarrow> list_all inUnit (fillYear k n v xs)"
  by (induction k arbitrary: xs) auto

lemma yearsLoop_unit:
  "list_all inUnit xs \<Longrightarrow> list_all validPct ys \<Longrightarrow> list_all inUnit (yearsLoop ys n xs)"
  by (induction ys arbitrary: xs) (auto simp: fillYear_unit monthlyHazard_unit)

lemma jor_last_unit: "xs \<noteq> [] \<Longrightarrow> list_all inUnit xs \<Longrightarrow> inUnit (jor (last xs) (Fin 0))"
  by (auto simp: jor_def inUnit_def list_all_iff)

lemma padLast_unit: "list_all inUnit xs \<Longrightarrow> list_all inUnit (padLast n xs)"
proof (induction n xs rule: padLast.induct)
  case (1 maxMonths monthly)
  show ?case
  proof (cases "length monthly < maxMonths")
    case True
    have "inUnit (jor (if monthly = [] then NaN else last monthly) (Fin 0))"
    proof (cases "monthly = []")
      case True
      then show ?thesis by (simp add: jor_def truthy_def inUnit_def)
    next
      case False
      with "1.prems" show ?thesis by (simp add: jor_last_unit)
    qed
    with 1 True show ?thesis by (subst padLast.simps) simp
  next
    case False
    with 1 show ?thesis by (subst padLast.simps) simp
  qed
qed

lemma annualDefaults_two: "annualDefaults [a, b] = [a, b - a]"
  by (simp add: annualDefaults_def upt_rec)

lemma monthlyHazard_negative: "\<not> inUnit (monthlyHazard (- 2))"
proof -
  have "1 < (51 / 50 :: real) powr (1 / 12)"
    by (rule gr_one_powr) simp_all
  then show ?thesis by (simp add: monthlyHazard_eq inUnit_def not_le)
qed

text \<open>
  Claim C5, as stated: for every annual curve and every month count the vector has the
  requested length and all its entries lie in \<open>[0, 1)\<close>. The entries do not for every
  curve: an annual prepayment rate of \<open>100\<close> percent gives the monthly rate \<open>1\<close>, and a
  cumulative default curve that falls from \<open>5\<close> to \<open>3\<close> gives a negative monthly
  rate from month \<open>13\<close> on.
\<close>

theorem interpolate_range_counterexample:
  "interpolateAnnualCPRToMonthlySMM [100] 1 = [Fin 1]
   \<and> \<not> inUnit (interpolateCumulativeDefaultsToMonthlyPD [5, 3] 13 ! 12)"
proof -
  have "interpolateAnnualCPRToMonthlySMM [100] 1 = [Fin 1]"
    by (simp add: interpolateAnnualCPRToMonthlySMM_def monthlyHazard_def jsub_def jpow.simps
        numeral_eq_Suc padLast.simps)
  moreover have "interpolateCumulativeDefaultsToMonthlyPD [5, 3] 13 ! 12 = monthlyHazard (- 2)"
    by (simp add: interpolateCumulativeDefaultsToMonthlyPD_def annualDefaults_two padLast.simps
        numeral_eq_Suc)
  ultimately show ?thesis by (simp add: monthlyHazard_negative)
qed

text \<open>
  Claim C5, amended: for every annual curve and every month count \<open>n\<close>, both
  interpolators return a vector of length exactly \<open>n\<close>; every entry lies in \<open>[0, 1)\<close>
  provided every annual rate fed to the conversion (the year-over-year marginal default
  percentage, respectively the annual CPR percentage) lies in \<open>[0, 100)\<close>.
\<close>

theorem interpolate_length_range:
  "length (interpolateCumulativeDefaultsToMonthlyPD cum n) = n
   \<and> length (interpolateAnnualCPRToMonthlySMM cpr n) = n
   \<and> (list_all validPct (annualDefaults cum)
        \<longrightarrow> list_all inUnit (interpolateCumulativeDefaultsToMonthlyPD cum n))
   \<and> (list_all validPct cpr
        \<longrightarrow> list_all inUnit (interpolateAnnualCPRToMonthlySMM cpr n))"
  using length_yearsLoop [of "[]" n "annualDefaults cum"] length_yearsLoop [of "[]" n cpr]
  by (simp add: interpolateCumulativeDefaultsToMonthlyPD_def interpolateAnnualCPRToMonthlySMM_def
      length_padLast yearsLoop_unit padLast_unit)

theorem interpolate_length_range_witness:
  "length (interpolateCumulativeDefaultsToMonthlyPD [2, 5] 14) = 14
   \<and> length (interpolateAnnualCPRToMonthlySMM [3] 14) = 14
   \<and> list_all inUnit (interpolateCumulativeDefaultsToMonthlyPD [2, 5] 14)
   \<and> list_all inUnit (interpolateAnnualCPRToMonthlySMM [3] 14)"
  using interpolate_length_range [of "[2, 5]" 14 "[3]"]
  by (simp add: annualDefaults_two validPct_def)

section \<open>Properties of the valuation\<close>

text \<open>
  Claim C9. For every loan whose principal is not positive, or whose rate is not positive,
  or whose computed term in months is not positive, \<open>valueLoan\<close> returns (it does not
  throw, whatever is or is not loaded) the sentinel result: risk tier \<open>"UNKNOWN"\<close>,
  \<open>npv\<close> \<open>NaN\<close>, \<open>discountRate\<close> \<open>null\<close>.
\<close>

theorem valueLoan_unvalued:
  assumes "principal loan \<le> 0 \<or> nominalRate loan \<le> 0 \<or> originalTermMonths loan \<le> 0"
  shows "valueLoan e loan borrower riskFreeRate profile = Inr (unvalued loan)
     \<and> riskTier (unvalued loan) = ''UNKNOWN''
     \<and> npv (unvalued loan) = NaN
     \<and> discountRate (unvalued loan) = None"
  using assms
  by (auto simp: valueLoan_def originalPrincipal_def loanRate_def numOr_def Let_def unvalued_def)

theorem valueLoan_unvalued_witness:
  "valueLoan bareEnv (sampleLoan\<lparr> principal := 0, loanStartDate := None \<rparr>) emptyBorrower None None
     = Inr (unvalued (sampleLoan\<lparr> principal := 0, loanStartDate := None \<rparr>))
   \<and> riskTier (unvalued (sampleLoan\<lparr> principal := 0, loanStartDate := None \<rparr>)) = ''UNKNOWN''
   \<and> npv (unvalued (sampleLoan\<lparr> principal := 0, loanStartDate := None \<rparr>)) = NaN
   \<and> discountRate (unvalued (sampleLoan\<lparr> principal := 0, loanStartDate := None \<rparr>)) = None"
  using valueLoan_unvalued
    [of "sampleLoan\<lparr> principal := 0, loanStartDate := None \<rparr>" bareEnv emptyBorrower None None]
  by simp

section \<open>Facts about the schedule builder\<close>

text \<open>The loop, one round at a time.\<close>

lemma amortLoop_stop:
  "\<not> real (st_i s) < totalMonths loan \<Longrightarrow> amortLoop fees loan start pm s = []"
  by (subst amortLoop.simps) simp

lemma amortLoop_default:
  "real (st_i s) < totalMonths loan \<Longrightarrow> defaultMonthKey loan = Some (st_calendarDate s) \<Longrightarrow>
   amortLoop fees loan start pm s = [defaultRow fees loan pm s]"
  by (subst amortLoop.simps) simp

lemma amortLoop_deferral:
  "real (st_i s) < totalMonths loan \<Longrightarrow> defaultMonthKey loan \<noteq> Some (st_calendarDate s) \<Longrightarrow>
   0 < st_deferralRemaining (deferralStart loan s) \<Longrightarrow>
   amortLoop fees loan start pm s =
     fst (deferralMonth fees loan pm (deferralStart loan s))
       # amortLoop fees loan start pm (snd (deferralMonth fees loan pm (deferralStart loan s)))"
  by (subst amortLoop.simps) (simp add: Let_def)

lemma amortLoop_normal:
  "real (st_i s) < totalMonths loan \<Longrightarrow> defaultMonthKey loan \<noteq> Some (st_calendarDate s) \<Longrightarrow>
   st_deferralRemaining (deferralStart loan s) = 0 \<Longrightarrow>
   amortLoop fees loan start pm s =
     (if jle (st_balance (snd (normalMonth fees loan start pm (deferralStart loan s)))) (Fin 0)
      then [(fst (normalMonth fees loan start pm (deferralStart loan s)))\<lparr> isTerminal := True, isPaidOff := True \<rparr>]
      else fst (normalMonth fees loan start pm (deferralStart loan s))
             # amortLoop fees loan start pm (snd (normalMonth fees loan start pm (deferralStart loan s))))"
  by (subst amortLoop.simps) (simp add: Let_def)

lemma normalMonth_quiet_state:
  assumes "isFinite (st_balance s)" "isFinite (originalMonthlyPayment loan)"
    "prepayMap (events loan) (st_calendarDate s) = []"
  shows "snd (normalMonth fees loan start pm s) =
     s\<lparr> st_balance := Fin (quietBal loan start s),
        st_calendarDate := st_calendarDate s + 1,
        st_i := st_i s + 1,
        st_length := st_length s + 1 \<rparr>"
proof -
  obtain b a where "st_balance s = Fin b" "originalMonthlyPayment loan = Fin a"
    using assms(1,2) by (auto simp: isFinite_eq)
  with assms(3) show ?thesis
    by (simp add: normalMonth_def Let_def applyPrepayments_def jmin_def jmax_def jsub_def
        quietBal_def stepBal_def addMonths_def min_def max_def)
qed


lemma normalMonth_balance:
  "balance (fst (normalMonth fees loan start pm s)) =
     toFixed2 (st_balance (snd (normalMonth fees loan start pm s)))"
  by (simp add: normalMonth_def Let_def split: prod.splits)

lemma normalMonth_quiet_balance:
  assumes "isFinite (st_balance s)" "isFinite (originalMonthlyPayment loan)"
    "prepayMap (events loan) (st_calendarDate s) = []"
  shows "balance (fst (normalMonth fees loan start pm s)) = toFixed2 (Fin (quietBal loan start s))"
  by (simp add: normalMonth_balance normalMonth_quiet_state [OF assms])

lemma amortLoop_quiet:
  assumes "real (st_i s) < totalMonths loan" "defaultMonthKey loan \<noteq> Some (st_calendarDate s)"
    "st_deferralRemaining s = 0" "deferralStartMap (events loan) (st_calendarDate s) = 0"
    "prepayMap (events loan) (st_calendarDate s) = []"
    "isFinite (st_balance s)" "isFinite (originalMonthlyPayment loan)"
  shows "amortLoop fees loan start pm s =
    (if quietBal loan start s \<le> 0
     then [(fst (normalMonth fees loan start pm s))\<lparr> isTerminal := True, isPaidOff := True \<rparr>]
     else fst (normalMonth fees loan start pm s)
            # amortLoop fees loan start pm
                (s\<lparr> st_balance := Fin (quietBal loan start s),
                   st_calendarDate := st_calendarDate s + 1,
                   st_i := st_i s + 1,
                   st_length := st_length s + 1 \<rparr>))"
proof -
  have ds: "deferralStart loan s = s" using assms by (simp add: deferralStart_def)
  show ?thesis
    using assms
    by (subst amortLoop_normal) (simp_all add: ds normalMonth_quiet_state [OF assms(6,7,5)])
qed

declare cumulate.simps [simp del]

lemma length_cumulate [simp]: "length (cumulate x y z rows) = length rows"
  by (induction rows arbitrary: x y z) (simp_all add: cumulate.simps Let_def)

lemma length_markLast [simp]: "length (markLast rows) = length rows"
  by (simp add: markLast_def)

text \<open>A column that the closing pass does not write is the same before and after it.\<close>

lemma map_cumulate:
  assumes "\<And>r a b c. f (r\<lparr> cumPrincipal := a, cumInterest := b, cumPayment := c \<rparr>) = f r"
  shows "map f (cumulate x y z rows) = map f rows"
  by (induction rows arbitrary: x y z) (simp_all add: cumulate.simps Let_def assms)

lemma map_markLast:
  assumes "\<And>r v. f (r\<lparr> isPaidOff := v \<rparr>) = f r"
  shows "map f (markLast rows) = map f rows"
proof (cases "rows = []")
  case True
  then show ?thesis by (simp add: markLast_def)
next
  case False
  have "map f (markLast rows) = map f (butlast rows) @ [f (last rows)]"
    using False by (simp add: markLast_def assms)
  also have "\<dots> = map f (butlast rows @ [last rows])" by simp
  also have "\<dots> = map f rows" by (simp only: append_butlast_last_id [OF False])
  finally show ?thesis .
qed

lemma sample_payment:
  "originalMonthlyPayment sampleLoan = Fin (11268250301319697206612010 / 126825030131969720661201)"
  by (simp add: originalMonthlyPayment_def sampleLoan_def repaymentMonths_def monthlyRate_def
      jpow_neg_nat [of _ 12, simplified] jsub_def power_divide)

lemma deferredPayoffLoan_facts:
  "totalMonths deferredPayoffLoan = 12" "monthlyRate deferredPayoffLoan = 1 / 100"
  "graceMonths deferredPayoffLoan = 0" "defaultMonthKey deferredPayoffLoan = None"
  "originalMonthlyPayment deferredPayoffLoan
     = Fin (11268250301319697206612010 / 126825030131969720661201)"
  "loanStartDate deferredPayoffLoan = Some 24288" "purchaseDate deferredPayoffLoan = None"
  "principal deferredPayoffLoan = 1000"
  "events deferredPayoffLoan = [DeferralEvent (Some 24288) 2, PrepaymentEvent (Some 24288) 5000]"
  using sample_payment
  by (simp_all add: deferredPayoffLoan_def sampleLoan_def totalMonths_def graceMonths_def
      repaymentMonths_def monthlyRate_def defaultMonthKey_def originalMonthlyPayment_def)

lemma normalMonth_row_facts:
  "loanDate (fst (normalMonth fees loan start pm s)) = st_calendarDate s"
  "defaulted (fst (normalMonth fees loan start pm s)) = False"
  "isTerminal (fst (normalMonth fees loan start pm s)) = False"
  by (simp_all add: normalMonth_def Let_def split: prod.splits)

lemma normalMonth_state_facts:
  "st_i (snd (normalMonth fees loan start pm s)) = st_i s + 1"
  "st_calendarDate (snd (normalMonth fees loan start pm s)) = st_calendarDate s + 1"
  "st_deferralRemaining (snd (normalMonth fees loan start pm s)) = st_deferralRemaining s"
  by (simp_all add: normalMonth_def Let_def addMonths_def split: prod.splits)

lemma defaultRow_facts:
  "defaulted (defaultRow fees loan pm s) = True"
  "isTerminal (defaultRow fees loan pm s) = True"
  "loanDate (defaultRow fees loan pm s) = st_calendarDate s"
  "balance (defaultRow fees loan pm s)
     = toFixed2 (jsub (st_balance s) (jmin (st_balance s) (Fin (defaultRecovery loan))))"
  by (simp_all add: defaultRow_def Let_def)

lemma jsub_jmin_zero: "\<not> jle x (Fin 0) \<Longrightarrow> jsub x (jmin x (Fin 0)) = x"
  by (cases x) (simp_all add: jsub_def jmin_def)

text \<open>A loan whose only event is a default, and the same loan without it.\<close>

lemma events_update_facts:
  "totalMonths (loan\<lparr> events := es \<rparr>) = totalMonths loan"
  "monthlyRate (loan\<lparr> events := es \<rparr>) = monthlyRate loan"
  "graceMonths (loan\<lparr> events := es \<rparr>) = graceMonths loan"
  "originalMonthlyPayment (loan\<lparr> events := es \<rparr>) = originalMonthlyPayment loan"
  by (simp_all add: totalMonths_def graceMonths_def repaymentMonths_def monthlyRate_def
      originalMonthlyPayment_def)

lemma only_default_facts:
  assumes "events loan = [DefaultEvent (Some K) rec]"
  shows "defaultMonthKey loan = Some K" "defaultRecovery loan = rec"
    "deferralStart loan s = s"
    "defaultMonthKey (loan\<lparr> events := [] \<rparr>) = None"
    "deferralStart (loan\<lparr> events := [] \<rparr>) s = s"
    "normalMonth fees (loan\<lparr> events := [] \<rparr>) start pm s = normalMonth fees loan start pm s"
  using assms
  by (simp_all add: defaultMonthKey_def defaultRecovery_def deferralStart_def normalMonth_def
      events_update_facts cong: if_cong)

lemma default_prefix:
  assumes ev: "events loan = [DefaultEvent (Some K) 0]"
  shows "st_deferralRemaining s = 0 \<Longrightarrow> st_calendarDate s + int k = K \<Longrightarrow>
    k < length (amortLoop fees (loan\<lparr> events := [] \<rparr>) start pm s) \<Longrightarrow>
    length (amortLoop fees loan start pm s) = Suc k
    \<and> defaulted (amortLoop fees loan start pm s ! k)
    \<and> isTerminal (amortLoop fees loan start pm s ! k)
    \<and> (0 < k \<longrightarrow> balance (amortLoop fees loan start pm s ! k)
          = balance (amortLoop fees (loan\<lparr> events := [] \<rparr>) start pm s ! (k - 1)))
    \<and> (k = 0 \<longrightarrow> balance (amortLoop fees loan start pm s ! k)
          = toFixed2 (jsub (st_balance s) (jmin (st_balance s) (Fin 0))))
    \<and> (\<forall>j<k. amortLoop fees loan start pm s ! j
          = amortLoop fees (loan\<lparr> events := [] \<rparr>) start pm s ! j)"
proof (induction k arbitrary: s)
  case 0
  let ?L0 = "loan\<lparr> events := [] \<rparr>"
  have run: "real (st_i s) < totalMonths loan"
  proof (rule ccontr)
    assume "\<not> real (st_i s) < totalMonths loan"
    then have "amortLoop fees ?L0 start pm s = []"
      by (simp add: amortLoop_stop events_update_facts)
    with 0 show False by simp
  qed
  have "amortLoop fees loan start pm s = [defaultRow fees loan pm s]"
    using run 0 by (simp add: amortLoop_default only_default_facts [OF ev])
  then show ?case by (simp add: defaultRow_facts only_default_facts [OF ev])
next
  case (Suc k)
  let ?L0 = "loan\<lparr> events := [] \<rparr>"
  let ?row = "fst (normalMonth fees loan start pm s)"
  let ?s2 = "snd (normalMonth fees loan start pm s)"
  have run: "real (st_i s) < totalMonths loan"
  proof (rule ccontr)
    assume "\<not> real (st_i s) < totalMonths loan"
    then have "amortLoop fees ?L0 start pm s = []"
      by (simp add: amortLoop_stop events_update_facts)
    with Suc.prems show False by simp
  qed
  have nodef: "defaultMonthKey loan \<noteq> Some (st_calendarDate s)"
    using Suc.prems by (simp add: only_default_facts [OF ev])
  have rows0: "amortLoop fees ?L0 start pm s =
      (if jle (st_balance ?s2) (Fin 0) then [?row\<lparr> isTerminal := True, isPaidOff := True \<rparr>]
       else ?row # amortLoop fees ?L0 start pm ?s2)"
    using run Suc.prems(1)
    by (subst amortLoop_normal) (simp_all add: only_default_facts [OF ev] events_update_facts)
  have open_bal: "\<not> jle (st_balance ?s2) (Fin 0)"
  proof
    assume "jle (st_balance ?s2) (Fin 0)"
    with rows0 have "length (amortLoop fees ?L0 start pm s) = 1" by simp
    with Suc.prems show False by simp
  qed
  with rows0 have rows0': "amortLoop fees ?L0 start pm s = ?row # amortLoop fees ?L0 start pm ?s2"
    by simp
  have rowsL: "amortLoop fees loan start pm s = ?row # amortLoop fees loan start pm ?s2"
    using run nodef Suc.prems(1) open_bal
    by (subst amortLoop_normal) (simp_all add: only_default_facts [OF ev] events_update_facts)
  have s2: "st_deferralRemaining ?s2 = 0" "st_calendarDate ?s2 + int k = K"
    using Suc.prems by (simp_all add: normalMonth_state_facts)
  have len: "k < length (amortLoop fees ?L0 start pm ?s2)"
    using Suc.prems(3) rows0' by simp
  note IH = Suc.IH [OF s2 len]
  have same: "\<forall>j<Suc k. amortLoop fees loan start pm s ! j = amortLoop fees ?L0 start pm s ! j"
  proof (intro allI impI)
    fix j assume "j < Suc k"
    with IH show "amortLoop fees loan start pm s ! j = amortLoop fees ?L0 start pm s ! j"
      by (cases j) (simp_all add: rowsL rows0')
  qed
  show ?case
  proof (cases k)
    case 0
    with IH rowsL rows0' open_bal same show ?thesis
      by (simp add: jsub_jmin_zero normalMonth_balance)
  next
    case (Suc j)
    with IH rowsL rows0' same show ?thesis by simp
  qed
qed


lemma closing_nth:
  assumes "\<And>r a b c. f (r\<lparr> cumPrincipal := a, cumInterest := b, cumPayment := c \<rparr>) = f r"
    and "\<And>r v. f (r\<lparr> isPaidOff := v \<rparr>) = f r"
    and "j < length rows"
  shows "f (markLast (cumulate x y z rows) ! j) = f (rows ! j)"
proof -
  have "map f (markLast (cumulate x y z rows)) ! j = map f rows ! j"
    by (simp add: map_markLast [of f, OF assms(2)] map_cumulate [of f, OF assms(1)])
  with assms(3) show ?thesis by simp
qed

lemma sampleLoan_facts:
  "totalMonths sampleLoan = 12" "monthlyRate sampleLoan = 1 / 100"
  "graceMonths sampleLoan = 0" "defaultMonthKey sampleLoan = None"
  "loanStartDate sampleLoan = Some 24288" "purchaseDate sampleLoan = None"
  "principal sampleLoan = 1000" "events sampleLoan = []"
  by (simp_all add: sampleLoan_def totalMonths_def graceMonths_def
      repaymentMonths_def monthlyRate_def defaultMonthKey_def)

lemmas quiet_eval =
  amortLoop_quiet amortLoop_stop quietBal_def quietSP_def stepBal_def stepSP_def toFixed2.simps

lemma sampleLoan_schedule:
  "map_sum id (map (\<lambda>r. (loanDate r, balance r))) (buildAmortSchedule defaultFees sampleLoan)
   = Inr [(24288, Fin (18423 / 20)), (24289, Fin (84151 / 100)), (24290, Fin (19027 / 25)),
          (24291, Fin (16996 / 25)), (24292, Fin (59779 / 100)), (24293, Fin (12873 / 25)),
          (24294, Fin (21561 / 50)), (24295, Fin (8667 / 25)), (24296, Fin (2613 / 10)),
          (24297, Fin (17507 / 100)), (24298, Fin (8797 / 100)), (24299, Fin 0)]"
  by (simp add: buildAmortSchedule_def sampleLoan_facts sample_payment map_cumulate map_markLast
      quiet_eval normalMonth_quiet_balance normalMonth_row_facts)

lemma defaultedLoan_facts:
  "totalMonths defaultedLoan = 12" "monthlyRate defaultedLoan = 1 / 100"
  "graceMonths defaultedLoan = 0" "defaultMonthKey defaultedLoan = Some 24299"
  "defaultRecovery defaultedLoan = 0"
  "originalMonthlyPayment defaultedLoan
     = Fin (11268250301319697206612010 / 126825030131969720661201)"
  "loanStartDate defaultedLoan = Some 24288" "purchaseDate defaultedLoan = None"
  "principal defaultedLoan = 1000" "events defaultedLoan = [DefaultEvent (Some 24299) 0]"
  using sample_payment
  by (simp_all add: defaultedLoan_def sampleLoan_def totalMonths_def graceMonths_def
      repaymentMonths_def monthlyRate_def defaultMonthKey_def defaultRecovery_def
      originalMonthlyPayment_def)

lemma sampleLoan_rows:
  obtains rows0 where "buildAmortSchedule defaultFees sampleLoan = Inr rows0"
    "map loanDate rows0 = [24288, 24289, 24290, 24291, 24292, 24293, 24294, 24295, 24296,
       24297, 24298, 24299]"
    "map balance rows0 = [Fin (18423 / 20), Fin (84151 / 100), Fin (19027 / 25),
       Fin (16996 / 25), Fin (59779 / 100), Fin (12873 / 25), Fin (21561 / 50),
       Fin (8667 / 25), Fin (2613 / 10), Fin (17507 / 100), Fin (8797 / 100), Fin 0]"
proof -
  obtain rows0 where r0: "buildAmortSchedule defaultFees sampleLoan = Inr rows0"
    by (simp add: buildAmortSchedule_def sampleLoan_facts)
  with sampleLoan_schedule
  have both: "map (\<lambda>r. (loanDate r, balance r)) rows0
    = [(24288, Fin (18423 / 20)), (24289, Fin (84151 / 100)), (24290, Fin (19027 / 25)),
       (24291, Fin (16996 / 25)), (24292, Fin (59779 / 100)), (24293, Fin (12873 / 25)),
       (24294, Fin (21561 / 50)), (24295, Fin (8667 / 25)), (24296, Fin (2613 / 10)),
       (24297, Fin (17507 / 100)), (24298, Fin (8797 / 100)), (24299, Fin 0)]"
    by simp
  have "map loanDate rows0 = map fst (map (\<lambda>r. (loanDate r, balance r)) rows0)"
    "map balance rows0 = map snd (map (\<lambda>r. (loanDate r, balance r)) rows0)"
    by (simp_all add: comp_def)
  then have sep: "map loanDate rows0 = [24288, 24289, 24290, 24291, 24292, 24293, 24294, 24295, 24296,
       24297, 24298, 24299]"
    "map balance rows0 = [Fin (18423 / 20), Fin (84151 / 100), Fin (19027 / 25),
       Fin (16996 / 25), Fin (59779 / 100), Fin (12873 / 25), Fin (21561 / 50),
       Fin (8667 / 25), Fin (2613 / 10), Fin (17507 / 100), Fin (8797 / 100), Fin 0]"
    by (simp_all only: both list.map fst_conv snd_conv)
  show thesis by (rule that [OF r0 sep])
qed













section \<open>Properties of the schedule builder\<close>

text \<open>
  Claim C3: a row whose balance is \<open>0\<close>, and a row that is flagged defaulted or
  terminal, is the last row of the schedule. The deferral branch of the loop has no
  paid-off check, unlike the normal branch: in the sample loan with a two-month deferral
  from the first month and a prepayment of \<open>5000\<close> in that month, the first row already
  has balance \<open>0\<close>, and two more rows follow it. (Balance, deferral flag and terminal
  flag of each row:)
\<close>

theorem buildAmortSchedule_deferral_payoff:
  "map_sum id (map (\<lambda>r. (balance r, isDeferred r, isTerminal r)))
     (buildAmortSchedule defaultFees deferredPayoffLoan)
   = Inr [(Fin 0, True, False), (Fin 0, True, False), (Fin 0, False, True)]"
  by (simp add: buildAmortSchedule_def deferredPayoffLoan_facts map_cumulate map_markLast
      amortLoop_stop amortLoop_deferral amortLoop_normal
      deferralStart_def deferralMonth_def normalMonth_def applyPrepayments_def
      addMonths_def Let_def jsub_def jmin_def jmax_def toFixed2.simps)

text \<open>
  Claim C7: with a default event dated in the twelfth month and a recovery amount of \<open>0\<close>,
  the schedule has exactly twelve rows, the twelfth is terminal and defaulted, and its
  balance is \<open>0\<close>. The default row takes the recovery off the balance, and nothing else:
  in the sample loan with such an event, the twelfth row keeps the balance \<open>87.97\<close> of
  the eleventh. (Defaulted flag, terminal flag and balance of each row:)
\<close>

theorem buildAmortSchedule_default_counterexample:
  "map_sum id (map (\<lambda>r. (defaulted r, isTerminal r, balance r)))
     (buildAmortSchedule defaultFees defaultedLoan)
   = Inr [(False, False, Fin (18423 / 20)), (False, False, Fin (84151 / 100)),
          (False, False, Fin (19027 / 25)), (False, False, Fin (16996 / 25)),
          (False, False, Fin (59779 / 100)), (False, False, Fin (12873 / 25)),
          (False, False, Fin (21561 / 50)), (False, False, Fin (8667 / 25)),
          (False, False, Fin (2613 / 10)), (False, False, Fin (17507 / 100)),
          (False, False, Fin (8797 / 100)), (True, True, Fin (8797 / 100))]"
  by (simp add: buildAmortSchedule_def defaultedLoan_facts map_cumulate map_markLast
      quiet_eval amortLoop_default normalMonth_quiet_balance normalMonth_row_facts defaultRow_facts
      jsub_def jmin_def)

text \<open>
  Claim C7, as the code has it: when the loan's only event is a default in the twelfth
  month with recovery \<open>0\<close>, and the schedule of the same loan without that event has at
  least twelve rows, the schedule has exactly twelve rows, the twelfth is defaulted and
  terminal, and its balance is the balance of the eleventh row (of the schedule itself,
  and of the schedule without the event, which has the same first eleven rows).
\<close>

theorem buildAmortSchedule_default_month12:
  assumes "loanStartDate loan = Some start"
    and "events loan = [DefaultEvent (Some (start + 11)) 0]"
    and "buildAmortSchedule fees (loan\<lparr> events := [] \<rparr>) = Inr rows0"
    and "12 \<le> length rows0"
  shows "\<exists>rows. buildAmortSchedule fees loan = Inr rows \<and> length rows = 12
     \<and> defaulted (rows ! 11) \<and> isTerminal (rows ! 11)
     \<and> balance (rows ! 11) = balance (rows0 ! 10)
     \<and> balance (rows ! 11) = balance (rows ! 10)"
proof -
  let ?pm = "case purchaseDate loan of None \<Rightarrow> start | Some d \<Rightarrow> d"
  let ?s0 = "\<lparr> st_i = 0, st_balance = Fin (principal loan), st_calendarDate = start,
               st_deferralRemaining = 0, st_deferralTotal = 0, st_length = 0 \<rparr>"
  let ?base = "amortLoop fees (loan\<lparr> events := [] \<rparr>) start ?pm ?s0"
  let ?run = "amortLoop fees loan start ?pm ?s0"
  have rows0: "rows0 = markLast (cumulate (Fin 0) (Fin 0) (Fin 0) ?base)"
    using assms(1,3) by (simp add: buildAmortSchedule_def)
  with assms(4) have len0: "11 < length ?base" by simp
  have "st_deferralRemaining ?s0 = 0" "st_calendarDate ?s0 + int 11 = start + 11" by simp_all
  from default_prefix [OF assms(2) this len0]
  have run: "length ?run = 12" "defaulted (?run ! 11)" "isTerminal (?run ! 11)"
    "balance (?run ! 11) = balance (?base ! 10)" "?run ! 10 = ?base ! 10"
    by simp_all
  have "buildAmortSchedule fees loan = Inr (markLast (cumulate (Fin 0) (Fin 0) (Fin 0) ?run))"
    using assms(1) by (simp add: buildAmortSchedule_def)
  moreover have "length (markLast (cumulate (Fin 0) (Fin 0) (Fin 0) ?run)) = 12"
    using run(1) by simp
  moreover have "defaulted (markLast (cumulate (Fin 0) (Fin 0) (Fin 0) ?run) ! 11)"
    using run(1,2) by (simp add: closing_nth)
  moreover have "isTerminal (markLast (cumulate (Fin 0) (Fin 0) (Fin 0) ?run) ! 11)"
    using run(1,3) by (simp add: closing_nth)
  moreover have "balance (markLast (cumulate (Fin 0) (Fin 0) (Fin 0) ?run) ! 11)
      = balance (rows0 ! 10)"
    using run(1,4) len0 by (simp add: closing_nth rows0)
  moreover have "balance (markLast (cumulate (Fin 0) (Fin 0) (Fin 0) ?run) ! 11)
      = balance (markLast (cumulate (Fin 0) (Fin 0) (Fin 0) ?run) ! 10)"
    using run(1,4,5) by (simp add: closing_nth)
  ultimately show ?thesis by blast
qed

theorem buildAmortSchedule_default_month12_witness:
  "\<exists>rows. buildAmortSchedule defaultFees defaultedLoan = Inr rows \<and> length rows = 12
     \<and> defaulted (rows ! 11) \<and> isTerminal (rows ! 11)
     \<and> balance (rows ! 11) = Fin (8797 / 100) \<and> balance (rows ! 10) = Fin (8797 / 100)"
proof -
  obtain rows0 where r0: "buildAmortSchedule defaultFees sampleLoan = Inr rows0"
    and bal: "map balance rows0 = [Fin (18423 / 20), Fin (84151 / 100), Fin (19027 / 25),
       Fin (16996 / 25), Fin (59779 / 100), Fin (12873 / 25), Fin (21561 / 50),
       Fin (8667 / 25), Fin (2613 / 10), Fin (17507 / 100), Fin (8797 / 100), Fin 0]"
    by (rule sampleLoan_rows)
  have len: "length rows0 = 12" using arg_cong [OF bal, of length] by simp
  then have b10: "balance (rows0 ! 10) = Fin (8797 / 100)"
    using arg_cong [OF bal, of "\<lambda>xs. xs ! 10"] by simp
  have same: "defaultedLoan\<lparr> events := [] \<rparr> = sampleLoan"
    by (simp add: defaultedLoan_def sampleLoan_def)
  have "loanStartDate defaultedLoan = Some 24288"
    "events defaultedLoan = [DefaultEvent (Some (24288 + 11)) 0]"
    "buildAmortSchedule defaultFees (defaultedLoan\<lparr> events := [] \<rparr>) = Inr rows0"
    "12 \<le> length rows0"
    using r0 len by (simp_all add: defaultedLoan_facts same)
  from buildAmortSchedule_default_month12 [OF this] b10 show ?thesis by auto
qed




section \<open>Properties of the discount rate\<close>

lemma cashflowValuation_fields:
  "riskBreakdown (cashflowValuation loan a tier rb dRate curBal n pd smm recPct lag) = Some rb"
  "discountRate (cashflowValuation loan a tier rb dRate curBal n pd smm recPct lag) = Some dRate"
  "riskTier (cashflowValuation loan a tier rb dRate curBal n pd smm recPct lag) = tier"
  by (simp_all add: cashflowValuation_def Let_def)

lemma cap_bound: "x = NaN \<or> jle (jdiv (jmin x (Fin 500)) (Fin 10000)) (Fin (5 / 100))"
  by (cases x) (simp_all add: jmin_def)

lemma findLastIndex_map: "findLastIndex P (map f xs) = findLastIndex (\<lambda>x. P (f x)) xs"
  by (induction xs) simp_all

lemma currentIndex_dates:
  "currentIndex now rows = findLastIndex (\<lambda>d. d \<le> now) (map loanDate rows)"
  by (simp add: currentIndex_def findLastIndex_map)

lemma sampleLoan_current:
  obtains rows0 where "buildAmortSchedule defaultFees sampleLoan = Inr rows0"
    "currentBalance 24288 sampleLoan rows0 = 18423 / 20" "termMonths 24288 sampleLoan rows0 = 11"
    "currentBalance 24299 sampleLoan rows0 = 0"
proof -
  obtain rows0 where r0: "buildAmortSchedule defaultFees sampleLoan = Inr rows0"
    and dates: "map loanDate rows0 = [24288, 24289, 24290, 24291, 24292, 24293, 24294, 24295, 24296,
       24297, 24298, 24299]"
    and bal: "map balance rows0 = [Fin (18423 / 20), Fin (84151 / 100), Fin (19027 / 25),
       Fin (16996 / 25), Fin (59779 / 100), Fin (12873 / 25), Fin (21561 / 50),
       Fin (8667 / 25), Fin (2613 / 10), Fin (17507 / 100), Fin (8797 / 100), Fin 0]"
    by (rule sampleLoan_rows)
  have len: "length rows0 = 12" using arg_cong [OF bal, of length] by simp
  have b0: "balance (rows0 ! 0) = Fin (18423 / 20)"
    using arg_cong [OF bal, of "\<lambda>xs. xs ! 0"] len by simp
  have b11: "balance (rows0 ! 11) = Fin 0"
    using arg_cong [OF bal, of "\<lambda>xs. xs ! 11"] len by simp
  have i0: "currentIndex 24288 rows0 = Some 0" and i11: "currentIndex 24299 rows0 = Some 11"
    by (simp_all add: currentIndex_dates dates)
  have "currentBalance 24288 sampleLoan rows0 = 18423 / 20" "termMonths 24288 sampleLoan rows0 = 11"
    "currentBalance 24299 sampleLoan rows0 = 0"
    by (simp_all add: currentBalance_def termMonths_def i0 i11 b0 b11 len)
  from that [OF r0 this] show thesis .
qed

lemma sampleLoan_basics:
  "originalPrincipal sampleLoan = 1000" "loanRate sampleLoan = 12 / 100"
  "originalTermMonths sampleLoan = 12"
  by (simp_all add: originalPrincipal_def loanRate_def originalTermMonths_def numOr_def
      sampleLoan_def)

lemma system_base_rate: "effectiveRiskFreeRate systemAssumptions r = 17 / 400"
  by (simp add: effectiveRiskFreeRate_def systemAssumptions_def)

lemma sampleBorrower_risk:
  "deriveRiskTier sampleBorrower systemAssumptions = ''MEDIUM''"
  "getSchoolTier (SCHOOLTIERS loadedEnv) ''State College'' None systemAssumptions = Inr ''Tier 3''"
  "totalRiskBps (breakdownOf systemAssumptions sampleBorrower ''MEDIUM'' mediumCurve ''Tier 3'')
     = Fin 525"
  by (simp_all add: deriveRiskTier_def deriveFicoBand_def sampleBorrower_def Let_def
      getSchoolTier_def tableEntry_def computeSchoolTier_def loadedEnv_def bareEnv_def
      systemAssumptions_def
      numOf_def jge_def breakdownOf_def userRiskBps_def optLookup_def degreeAdjOf_def
      schoolAdjOf_def getSchoolAdjBps_def yearAdjOf_def gradAdjOf_def ficoAdjOf_def
      normalizedDegree_def yearKey_def)

lemma tierOne_risk:
  "getSchoolTier (SCHOOLTIERS tierOneEnv) ''State College'' None systemAssumptions = Inr ''Tier 1''"
  "breakdownOf systemAssumptions sampleBorrower ''MEDIUM''
       (mediumCurve\<lparr> curveRiskPremiumBps := Some 400 \<rparr>) ''Tier 1''
     = \<lparr> baseRiskBps = Some 400, degreeAdj = 0, schoolAdj = - 75, yearAdj = 0, gradAdj = 0,
         ficoAdj = 50, totalRiskBps = Fin 325, schoolTier = ''Tier 1'' \<rparr>"
  by (simp_all add: sampleBorrower_def Let_def
      getSchoolTier_def tableEntry_def computeSchoolTier_def tierOneEnv_def loadedEnv_def
      bareEnv_def systemAssumptions_def mediumCurve_def
      numOf_def jge_def breakdownOf_def userRiskBps_def optLookup_def degreeAdjOf_def
      schoolAdjOf_def getSchoolAdjBps_def yearAdjOf_def gradAdjOf_def ficoAdjOf_def
      normalizedDegree_def yearKey_def)

lemma termMonths_pos: "0 < termMonths now loan amort"
  by (simp add: termMonths_def Let_def max_def)

text \<open>
  Claim C6: for every valid loan, borrower and profile, the discount rate that
  \<open>valueLoan\<close> returns is the effective base risk-free rate plus
  \<open>min(totalRiskBps, 500) / 10000\<close>, where \<open>totalRiskBps\<close> is the base curve premium
  plus the adjustments. Two things differ in the code. A loan with no balance left is
  returned before any risk premium is computed, with the \<open>riskFreeRate\<close> argument itself
  as its discount rate: the sample loan valued in its last month, when its balance is
  \<open>0\<close>, gets the rate \<open>0.04\<close>, where the formula gives \<open>0.0925\<close> for this borrower.
  And the premium of the tier is taken from the profile first, from the curve only when
  the profile has none: with a curve premium of \<open>400\<close> and adjustments of \<open>-75\<close> and
  \<open>50\<close>, the total is \<open>325\<close> (the profile's \<open>350\<close> and the adjustments), not \<open>375\<close>,
  and the rate is \<open>0.075\<close>, not \<open>0.08\<close>. (The second tuple is the rate, and the curve
  premium, the degree, school, year, graduate and FICO adjustments and the total of the
  breakdown.)
\<close>

theorem valueLoan_discountRate_counterexample:
  "map_sum id discountRate
     (valueLoan (loadedEnv\<lparr> today := 24299 \<rparr>) sampleLoan sampleBorrower None None)
   = Inr (Some (Fin (4 / 100)))
   \<and> discountRateOf systemAssumptions (4 / 100)
       (breakdownOf systemAssumptions sampleBorrower ''MEDIUM'' mediumCurve ''Tier 3'')
     = Fin (37 / 400)
   \<and> map_sum id
       (\<lambda>v. (discountRate v,
             map_option (\<lambda>rb. (baseRiskBps rb, degreeAdj rb, schoolAdj rb, yearAdj rb, gradAdj rb,
                               ficoAdj rb, totalRiskBps rb)) (riskBreakdown v)))
       (valueLoan tierOneEnv sampleLoan sampleBorrower None None)
     = Inr (Some (Fin (3 / 40)), Some (Some 400, 0, - 75, 0, 0, 50, Fin 325))"
proof -
  obtain rows0 where r0: "buildAmortSchedule defaultFees sampleLoan = Inr rows0"
    and cb: "currentBalance 24299 sampleLoan rows0 = 0"
    and cb0: "currentBalance 24288 sampleLoan rows0 = 18423 / 20"
    and tm0: "termMonths 24288 sampleLoan rows0 = 11"
    by (rule sampleLoan_current)
  have "valueLoan (loadedEnv\<lparr> today := 24299 \<rparr>) sampleLoan sampleBorrower None None
      = Inr (paidOff sampleLoan sampleBorrower systemAssumptions (4 / 100))"
    by (simp add: valueLoan_def loadedEnv_def bareEnv_def r0 cb Let_def sampleLoan_basics)
  then have 1: "map_sum id discountRate
     (valueLoan (loadedEnv\<lparr> today := 24299 \<rparr>) sampleLoan sampleBorrower None None)
   = Inr (Some (Fin (4 / 100)))"
    by (simp add: paidOff_def)
  have 2: "discountRateOf systemAssumptions (4 / 100)
       (breakdownOf systemAssumptions sampleBorrower ''MEDIUM'' mediumCurve ''Tier 3'')
     = Fin (37 / 400)"
    by (simp add: discountRateOf_def cappedRiskBps_def sampleBorrower_risk
        system_base_rate jmin_def)
  let ?rb = "\<lparr> baseRiskBps = Some 400, degreeAdj = 0, schoolAdj = - 75, yearAdj = 0, gradAdj = 0,
         ficoAdj = 50, totalRiskBps = Fin 325, schoolTier = ''Tier 1'' \<rparr>"
  have "\<exists>v. valueLoan tierOneEnv sampleLoan sampleBorrower None None = Inr v
     \<and> riskBreakdown v = Some ?rb
     \<and> discountRate v = Some (discountRateOf systemAssumptions (4 / 100) ?rb)"
    by (simp add: valueLoan_def priceLoan_def tierOneEnv_def loadedEnv_def bareEnv_def r0 cb0 tm0
        Let_def sampleLoan_basics sampleBorrower_risk(1)
        tierOne_risk [unfolded tierOneEnv_def loadedEnv_def bareEnv_def mediumCurve_def, simplified]
        curveFor_def mediumCurve_def isInt_def cashflowValuation_fields
        sampleBorrower_def [THEN arg_cong, of school] sampleBorrower_def [THEN arg_cong, of opeid])
  then have 3: "map_sum id
       (\<lambda>v. (discountRate v,
             map_option (\<lambda>rb. (baseRiskBps rb, degreeAdj rb, schoolAdj rb, yearAdj rb, gradAdj rb,
                               ficoAdj rb, totalRiskBps rb)) (riskBreakdown v)))
       (valueLoan tierOneEnv sampleLoan sampleBorrower None None)
     = Inr (Some (Fin (3 / 40)), Some (Some 400, 0, - 75, 0, 0, 50, Fin 325))"
    by (auto simp: discountRateOf_def cappedRiskBps_def system_base_rate jmin_def)
  from 1 2 3 show ?thesis by (intro conjI)
qed

text \<open>
  Claim C6, as the code has it, for a loan with valid basics that \<open>valueLoan\<close> values:
  when the loan has no balance left at the valuation date, the discount rate returned is
  the \<open>riskFreeRate\<close> argument; otherwise it is the effective base risk-free rate plus
  \<open>min(totalRiskBps, 500) / 10000\<close>, where \<open>totalRiskBps\<close> is the sum of the tier
  premium (the profile's, else the curve's) and the degree, school, year-in-school,
  graduate and FICO adjustments of the breakdown, so that the premium added is at most
  500 basis points (unless the total is not a number).
\<close>

theorem valueLoan_discountRate:
  assumes "valueLoan e loan borrower riskFreeRate profile = Inr v"
    and "0 < originalPrincipal loan" and "0 < loanRate loan" and "0 < originalTermMonths loan"
    and "VALUATION_CURVES e = Some curves"
    and "buildAmortSchedule (feesOf e loan) loan = Inr amort"
  shows "if currentBalance (today e) loan amort \<le> 0
     then discountRate v = Some (Fin (case riskFreeRate of None \<Rightarrow> 4 / 100 | Some r \<Rightarrow> r))
     else (\<exists>rb. riskBreakdown v = Some rb
       \<and> discountRate v
         = Some (jadd (Fin (effectiveRiskFreeRate
                              (case profile of None \<Rightarrow> SYSTEM_PROFILE e | Some pa \<Rightarrow> pa)
                              (case riskFreeRate of None \<Rightarrow> 4 / 100 | Some r \<Rightarrow> r)))
                      (jdiv (jmin (totalRiskBps rb) (Fin 500)) (Fin 10000)))
       \<and> totalRiskBps rb
         = jadd (jadd (jadd (jadd (jadd
             (userRiskBps (case profile of None \<Rightarrow> SYSTEM_PROFILE e | Some pa \<Rightarrow> pa)
                (riskTier v) (curveFor curves (riskTier v)))
             (Fin (degreeAdj rb))) (Fin (schoolAdj rb))) (Fin (yearAdj rb))) (Fin (gradAdj rb)))
             (Fin (ficoAdj rb))
       \<and> (totalRiskBps rb = NaN
          \<or> jle (jdiv (jmin (totalRiskBps rb) (Fin 500)) (Fin 10000)) (Fin (5 / 100)))
       \<and> rb = breakdownOf (case profile of None \<Rightarrow> SYSTEM_PROFILE e | Some pa \<Rightarrow> pa) borrower
                (riskTier v) (curveFor curves (riskTier v)) (schoolTier rb))"
proof (cases "currentBalance (today e) loan amort \<le> 0")
  case True
  let ?a = "case profile of None \<Rightarrow> SYSTEM_PROFILE e | Some pa \<Rightarrow> pa"
  let ?rf = "case riskFreeRate of None \<Rightarrow> 4 / 100 | Some r \<Rightarrow> r"
  from assms True have "v = paidOff loan borrower ?a ?rf"
    by (simp add: valueLoan_def Let_def)
  with True show ?thesis by (simp add: paidOff_def)
next
  case False
  let ?a = "case profile of None \<Rightarrow> SYSTEM_PROFILE e | Some pa \<Rightarrow> pa"
  let ?rf = "case riskFreeRate of None \<Rightarrow> 4 / 100 | Some r \<Rightarrow> r"
  let ?tier = "deriveRiskTier borrower ?a"
  from assms False
  have "priceLoan e curves loan borrower ?a ?rf (currentBalance (today e) loan amort)
      (termMonths (today e) loan amort) = Inr v"
    using termMonths_pos [of "today e" loan amort] by (simp add: valueLoan_def Let_def)
  then obtain sT n pd smm recPct lag where
    v: "v = cashflowValuation loan ?a ?tier (breakdownOf ?a borrower ?tier (curveFor curves ?tier) sT)
              (discountRateOf ?a ?rf (breakdownOf ?a borrower ?tier (curveFor curves ?tier) sT))
              (currentBalance (today e) loan amort) n pd smm recPct lag"
    by (auto simp: priceLoan_def Let_def split: if_splits option.splits sum.splits)
  let ?rb = "breakdownOf ?a borrower ?tier (curveFor curves ?tier) sT"
  have 0: "riskBreakdown v = Some ?rb" by (simp add: v cashflowValuation_fields)
  have 1: "discountRate v = Some (jadd (Fin (effectiveRiskFreeRate ?a ?rf))
                   (jdiv (jmin (totalRiskBps ?rb) (Fin 500)) (Fin 10000)))"
    by (simp add: v cashflowValuation_fields discountRateOf_def cappedRiskBps_def)
  have 2: "totalRiskBps ?rb
      = jadd (jadd (jadd (jadd (jadd
          (userRiskBps ?a (riskTier v) (curveFor curves (riskTier v)))
          (Fin (degreeAdj ?rb))) (Fin (schoolAdj ?rb))) (Fin (yearAdj ?rb))) (Fin (gradAdj ?rb)))
          (Fin (ficoAdj ?rb))"
    by (simp add: v cashflowValuation_fields breakdownOf_def)
  have 3: "?rb = breakdownOf ?a borrower (riskTier v) (curveFor curves (riskTier v)) (schoolTier ?rb)"
    by (simp add: v cashflowValuation_fields) (simp add: breakdownOf_def)
  from 0 1 2 3 cap_bound [of "totalRiskBps ?rb"] have "\<exists>rb. riskBreakdown v = Some rb
       \<and> discountRate v
         = Some (jadd (Fin (effectiveRiskFreeRate ?a ?rf))
                      (jdiv (jmin (totalRiskBps rb) (Fin 500)) (Fin 10000)))
       \<and> totalRiskBps rb
         = jadd (jadd (jadd (jadd (jadd
             (userRiskBps ?a (riskTier v) (curveFor curves (riskTier v)))
             (Fin (degreeAdj rb))) (Fin (schoolAdj rb))) (Fin (yearAdj rb))) (Fin (gradAdj rb)))
             (Fin (ficoAdj rb))
       \<and> (totalRiskBps rb = NaN
          \<or> jle (jdiv (jmin (totalRiskBps rb) (Fin 500)) (Fin 10000)) (Fin (5 / 100)))
       \<and> rb = breakdownOf ?a borrower (riskTier v) (curveFor curves (riskTier v)) (schoolTier rb)"
    by (intro exI [of _ ?rb] conjI)
  with False show ?thesis by (simp only: if_False)
qed

theorem valueLoan_discountRate_witness:
  "(\<exists>v rb. valueLoan loadedEnv sampleLoan sampleBorrower None None = Inr v
      \<and> riskBreakdown v = Some rb \<and> totalRiskBps rb = Fin 525
      \<and> discountRate v = Some (Fin (37 / 400)))
   \<and> (\<exists>v. valueLoan (loadedEnv\<lparr> today := 24299 \<rparr>) sampleLoan sampleBorrower None None = Inr v
      \<and> discountRate v = Some (Fin (4 / 100)))"
proof -
  obtain rows0 where r0: "buildAmortSchedule defaultFees sampleLoan = Inr rows0"
    and cb: "currentBalance 24288 sampleLoan rows0 = 18423 / 20"
    and tm: "termMonths 24288 sampleLoan rows0 = 11"
    and cb': "currentBalance 24299 sampleLoan rows0 = 0"
    by (rule sampleLoan_current)
  let ?rb = "breakdownOf systemAssumptions sampleBorrower ''MEDIUM'' mediumCurve ''Tier 3''"
  have basics: "0 < originalPrincipal sampleLoan" "0 < loanRate sampleLoan"
    "0 < originalTermMonths sampleLoan"
    by (simp_all add: sampleLoan_basics)
  have "\<exists>v. valueLoan loadedEnv sampleLoan sampleBorrower None None = Inr v
     \<and> riskBreakdown v = Some ?rb"
    by (simp add: valueLoan_def priceLoan_def loadedEnv_def bareEnv_def r0 cb tm Let_def
        sampleLoan_basics
        sampleBorrower_risk [unfolded loadedEnv_def bareEnv_def, simplified]
        curveFor_def mediumCurve_def isInt_def cashflowValuation_fields
        sampleBorrower_def [THEN arg_cong, of school] sampleBorrower_def [THEN arg_cong, of opeid])
  then obtain v where v: "valueLoan loadedEnv sampleLoan sampleBorrower None None = Inr v"
    and rb: "riskBreakdown v = Some ?rb" by blast
  have curves: "VALUATION_CURVES loadedEnv = Some [''MEDIUM'' \<mapsto> mediumCurve]"
    and amort: "buildAmortSchedule (feesOf loadedEnv sampleLoan) sampleLoan = Inr rows0"
    and now: "today loadedEnv = 24288"
    by (simp_all add: loadedEnv_def bareEnv_def r0)
  from valueLoan_discountRate [OF v basics curves amort] rb
  have "discountRate v = Some (Fin (37 / 400))"
    by (simp add: now cb sampleBorrower_risk system_base_rate loadedEnv_def bareEnv_def jmin_def)
  with v rb have first: "\<exists>v rb. valueLoan loadedEnv sampleLoan sampleBorrower None None = Inr v
      \<and> riskBreakdown v = Some rb \<and> totalRiskBps rb = Fin 525
      \<and> discountRate v = Some (Fin (37 / 400))"
    by (auto simp: sampleBorrower_risk)
  let ?late = "loadedEnv\<lparr> today := 24299 \<rparr>"
  have "\<exists>w. valueLoan ?late sampleLoan sampleBorrower None None = Inr w"
    by (simp add: valueLoan_def loadedEnv_def bareEnv_def r0 cb' Let_def sampleLoan_basics)
  then obtain w where w: "valueLoan ?late sampleLoan sampleBorrower None None = Inr w" by blast
  have curves': "VALUATION_CURVES ?late = Some [''MEDIUM'' \<mapsto> mediumCurve]"
    and amort': "buildAmortSchedule (feesOf ?late sampleLoan) sampleLoan = Inr rows0"
    and now': "today ?late = 24299"
    by (simp_all add: loadedEnv_def bareEnv_def r0)
  from valueLoan_discountRate [OF w basics curves' amort']
  have "discountRate w = Some (Fin (4 / 100))"
    by (simp add: now' cb')
  with w first show ?thesis by blast
qed

section \<open>Properties of the portfolio aggregator\<close>

lemma getUserOwnershipPct_jeff:
  "ownershipLots loan = [\<lparr> user = ''jeff'', pct = 1 \<rparr>] \<Longrightarrow> getUserOwnershipPct loan ''jeff'' = 1"
  by (simp add: getUserOwnershipPct_def trim_def isWhite_def toLowerCase_def lowerChar_def numOr_def)

text \<open>
  Claim C1: \<open>computePortfolioValuation\<close> completes for every array of loans, and a loan
  with the sentinel result contributes zero to the totals, so that no \<open>NaN\<close> reaches
  them. With curves and school tiers loaded: a single owned loan with principal \<open>0\<close>
  makes \<open>totalNPV\<close> \<open>NaN\<close>; a single owned loan with a negative term adds its
  principal to \<open>totalPrincipal\<close> and makes \<open>totalNPV\<close> and the three weighted averages
  \<open>NaN\<close>; and a loan without a valid start date makes the whole call throw, also when
  \<open>valueLoan\<close> has returned the sentinel for it. (The tuples are \<open>totalPrincipal\<close>,
  \<open>totalNPV\<close>, \<open>totalExpLoss\<close>, \<open>totalWAL\<close>, \<open>totalIRR\<close>.)
\<close>

theorem computePortfolioValuation_unvalued:
  "map_sum id (\<lambda>p. (totalPrincipal p, totalNPV p, totalExpLoss p, totalWAL p, totalIRR p))
     (computePortfolioValuation loadedEnv [sampleLoan\<lparr> principal := 0 \<rparr>]
        ''jeff'' ''portfolio'' None None)
   = Inr (Fin 0, NaN, Fin 0, Fin 0, Fin 0)
   \<and> map_sum id (\<lambda>p. (totalPrincipal p, totalNPV p, totalExpLoss p, totalWAL p, totalIRR p))
     (computePortfolioValuation loadedEnv [sampleLoan\<lparr> termYears := - 1 \<rparr>]
        ''jeff'' ''portfolio'' None None)
   = Inr (Fin 1000, NaN, NaN, NaN, NaN)
   \<and> computePortfolioValuation loadedEnv [sampleLoan\<lparr> principal := 0, loanStartDate := None \<rparr>]
        ''jeff'' ''portfolio'' None None
   = Inl InvalidStartDate"
  by (simp add: computePortfolioValuation_def ownedBy_def valueOwnedLoan_def valueLoan_def
      originalPrincipal_def originalTermMonths_def loanRate_def numOr_def buildAmortSchedule_def
      accumulate_def unvalued_def getUserOwnershipPct_jeff sampleLoan_def loadedEnv_def bareEnv_def
      Let_def optNum_def jgt_def)

end
